theory Spec2Isabelle
  imports Complex_Main
begin

section \<open>Strings\<close>

text \<open>
  A JavaScript string is a sequence of UTF-16 code units. The interpreter only ever
  compares code units with constants and ranges, so a code unit is modelled by its
  number and a string by the list of its code units. \<open>js\<close> turns a literal into
  such a list.
\<close>

type_synonym jsstring = "nat list"

definition js :: "string \<Rightarrow> jsstring" where
  "js s = map of_char s"

text \<open>
  The regular expression classes used by the parser, on one code unit:
  \<^verbatim>\<open>/\s/\<close> (the JavaScript white space and line terminator code units),
  \<^verbatim>\<open>/\s|[\[\]]/\<close> (\<open>_isSeparator\<close>), \<^verbatim>\<open>/[A-Z]/\<close>, \<^verbatim>\<open>/[a-z]/\<close> and \<^verbatim>\<open>[\w-]\<close>.
\<close>

definition isSpace :: "nat \<Rightarrow> bool" where
  "isSpace c \<longleftrightarrow>
     c \<in> {9, 10, 11, 12, 13, 32, 160, 5760, 8232, 8233, 8239, 8287, 12288, 65279}
     \<or> (8192 \<le> c \<and> c \<le> 8202)"

definition isSeparator :: "nat \<Rightarrow> bool" where
  "isSeparator c \<longleftrightarrow> isSpace c \<or> c = of_char CHR ''['' \<or> c = of_char CHR '']''"

definition isUpper :: "nat \<Rightarrow> bool" where
  "isUpper c \<longleftrightarrow> of_char CHR ''A'' \<le> c \<and> c \<le> of_char CHR ''Z''"

definition isLower :: "nat \<Rightarrow> bool" where
  "isLower c \<longleftrightarrow> of_char CHR ''a'' \<le> c \<and> c \<le> of_char CHR ''z''"

definition isDigit :: "nat \<Rightarrow> bool" where
  "isDigit c \<longleftrightarrow> of_char CHR ''0'' \<le> c \<and> c \<le> of_char CHR ''9''"

definition isNameChar :: "nat \<Rightarrow> bool" where
  "isNameChar c \<longleftrightarrow>
     isUpper c \<or> isLower c \<or> isDigit c \<or> c = of_char CHR ''_'' \<or> c = of_char CHR ''-''"

section \<open>Values\<close>

text \<open>
  The classes \<open>Id\<close>, \<open>Constant\<close>, \<open>Variable\<close>, \<open>Catenate\<close>, \<open>Quote\<close>, \<open>Text\<close> and
  \<open>Prompt\<close> of the interpreter. All fields are set by the constructor and never
  assigned again, but a \<open>Catenate\<close> holds a JavaScript array, which is a mutable
  object: \<open>State.pushCode\<close> reverses such an array in place. The array is therefore
  modelled with its identity: \<open>Catenate k cs\<close> is a Catenate whose children array is
  the array number \<open>k\<close>, with the current contents \<open>cs\<close>. Two occurrences of the same
  \<open>k\<close> are aliases of one array. Arrays are numbered in the order of their creation.
\<close>

datatype Value =
    IdV
  | Constant jsstring
  | Variable jsstring
  | Catenate nat "Value list"
  | Quote Value
  | Text jsstring
  | Prompt jsstring

text \<open>
  The subclasses of \<open>Panic\<close>. \<open>Unreadable\<close> keeps its message, \<open>NoSuchProperty\<close> the
  property, \<open>Unknown\<close> the value.
\<close>

datatype error =
    NoMoreData
  | NoMoreCode
  | NoShift
  | NoSuchProperty string
  | Unreadable string
  | Unknown Value

text \<open>The getters \<open>body\<close> and \<open>text\<close>: every class but one raises \<open>NoSuchProperty\<close>.\<close>

fun body :: "Value \<Rightarrow> error + Value" where
  "body (Quote b) = Inr b"
| "body v = Inl (NoSuchProperty ''body'')"

fun text_of :: "Value \<Rightarrow> error + jsstring" where
  "text_of (Text s) = Inr s"
| "text_of v = Inl (NoSuchProperty ''string'')"

subsection \<open>Printer\<close>

fun join :: "jsstring \<Rightarrow> jsstring list \<Rightarrow> jsstring" where
  "join sep [] = []"
| "join sep [x] = x"
| "join sep (x # y # ys) = x @ sep @ join sep (y # ys)"

fun toString :: "Value \<Rightarrow> jsstring" where
  "toString IdV = []"
| "toString (Constant name) = name"
| "toString (Variable name) = name"
| "toString (Catenate k children) = join (js '' '') (map toString children)"
| "toString (Quote b) = js ''['' @ toString b @ js '']''"
| "toString (Text s) = js [CHR 0x22] @ s @ js [CHR 0x22]"
| "toString (Prompt s) = js ''{'' @ s @ js ''}''"

text \<open>
  Structural equality of two values disregards which arrays they are built from:
  \<open>shape\<close> forgets the array identities.
\<close>

fun shape :: "Value \<Rightarrow> Value" where
  "shape (Catenate k children) = Catenate 0 (map shape children)"
| "shape (Quote b) = Quote (shape b)"
| "shape v = v"

subsection \<open>The constructor \<open>catenate\<close>\<close>

text \<open>
  One round of the loop of \<open>catenate\<close>: what the argument \<open>v\<close> adds to \<open>buf\<close>.
\<close>

fun spliced :: "Value \<Rightarrow> Value list" where
  "spliced IdV = []"
| "spliced (Catenate k children) = children"
| "spliced v = [v]"

text \<open>
  \<open>catenate k values\<close>: \<open>k\<close> is the number of the array \<open>buf\<close> that the call creates.
\<close>

definition catenate :: "nat \<Rightarrow> Value list \<Rightarrow> Value" where
  "catenate k values =
     (let buf = foldl (\<lambda>buf v. buf @ spliced v) [] values
      in if length buf = 0 then IdV else Catenate k buf)"

section \<open>Parser\<close>

text \<open>
  \<open>read\<close> scans the source with an index that only grows, and looks only at the code
  units from the index on, so the loop is a recursion over the rest of the source.
  \<open>build\<close> is the list under construction, \<open>stack\<close> the array of the enclosing lists
  (its last element is the one \<open>pop\<close> returns), and \<open>k\<close> the number that the next
  array created by \<open>catenate\<close> gets. The result is the value and the next free array
  number.
\<close>

function read_loop ::
  "jsstring \<Rightarrow> Value list \<Rightarrow> Value list list \<Rightarrow> nat \<Rightarrow> error + (Value \<times> nat)" where
  "read_loop [] build stack k =
     (if length stack > 0 then Inl (Unreadable ''Unbalanced brackets'')
      else Inr (catenate k build, Suc k))"
| "read_loop (c # cs) build stack k =
     (if isSpace c then
        read_loop (dropWhile isSpace (c # cs)) build stack k
      else if c = of_char CHR ''['' then
        read_loop cs [] (stack @ [build]) k
      else if c = of_char CHR '']'' then
        (if length stack = 0 then Inl (Unreadable ''Unbalanced brackets'')
         else read_loop cs (last stack @ [Quote (catenate k build)]) (butlast stack) (Suc k))
      else if c = of_char (CHR 0x22) then
        (let s = takeWhile (\<lambda>x. x \<noteq> of_char (CHR 0x22)) cs;
             rest = dropWhile (\<lambda>x. x \<noteq> of_char (CHR 0x22)) cs
         in if rest = [] then Inl (Unreadable ''Unbalanced quotes'')
            else read_loop (tl rest) (build @ [Text s]) stack k)
      else if c = of_char CHR ''{'' then
        (let s = takeWhile (\<lambda>x. x \<noteq> of_char CHR ''}'') cs;
             rest = dropWhile (\<lambda>x. x \<noteq> of_char CHR ''}'') cs
         in if rest = [] then Inl (Unreadable ''Unbalanced braces'')
            else read_loop (tl rest) (build @ [Prompt s]) stack k)
      else if isUpper c then
        (let name = c # takeWhile (\<lambda>x. \<not> isSeparator x) cs;
             rest = dropWhile (\<lambda>x. \<not> isSeparator x) cs
         in if \<not> (isUpper (hd name) \<and> list_all isNameChar (tl name))
            then Inl (Unreadable ''Unknown symbol'')
            else read_loop rest (build @ [Constant name]) stack k)
      else
        (let name = c # takeWhile (\<lambda>x. \<not> isSeparator x) cs;
             rest = dropWhile (\<lambda>x. \<not> isSeparator x) cs
         in if \<not> (isLower (hd name) \<and> list_all isNameChar (tl name))
            then Inl (Unreadable ''Unknown symbol'')
            else read_loop rest (build @ [Variable name]) stack k))"
  by pat_completeness auto
termination
proof (relation "measure (\<lambda>(src, build, stack, k). length src)")
  show "wf (measure (\<lambda>(src, build, stack, k). length src))"
    by simp
next
  fix c :: nat and cs :: jsstring and build :: "Value list"
    and stack :: "Value list list" and k :: nat
  assume "isSpace c"
  then have "length (dropWhile isSpace (c # cs)) \<le> length cs"
    by (simp add: length_dropWhile_le)
  then show "((dropWhile isSpace (c # cs), build, stack, k), c # cs, build, stack, k)
      \<in> measure (\<lambda>(src, build, stack, k). length src)"
    by simp
qed (auto simp: less_Suc_eq_le length_dropWhile_le
       intro: le_trans [OF diff_le_self length_dropWhile_le])

declare read_loop.simps [simp del]

definition read :: "jsstring \<Rightarrow> nat \<Rightarrow> error + (Value \<times> nat)" where
  "read src k = read_loop src [] [] k"

section \<open>Machine state\<close>

text \<open>
  The class \<open>State\<close>: three arrays used as stacks, the top being the last element.
  The methods raise \<open>NoMoreData\<close> and \<open>NoMoreCode\<close>; they are written for any
  extension of the record, so that they also act on the machine below.
\<close>

record State =
  code :: "Value list"
  data :: "Value list"
  sink :: "Value list"

definition getData :: "'a State_scheme \<Rightarrow> nat \<Rightarrow> error + Value" where
  "getData st index =
     (if index \<ge> length (data st) then Inl NoMoreData
      else Inr (data st ! (length (data st) - 1 - index)))"

definition popData :: "'a State_scheme \<Rightarrow> nat \<Rightarrow> error + 'a State_scheme" where
  "popData st n =
     (if n > length (data st) then Inl NoMoreData
      else Inr (st\<lparr>data := take (length (data st) - n) (data st)\<rparr>))"

definition pushData :: "'a State_scheme \<Rightarrow> Value \<Rightarrow> 'a State_scheme" where
  "pushData st v = st\<lparr>data := data st @ [v]\<rparr>"

definition numCode :: "'a State_scheme \<Rightarrow> nat" where
  "numCode st = length (code st)"

definition getCode :: "'a State_scheme \<Rightarrow> nat \<Rightarrow> error + Value" where
  "getCode st index =
     (if index \<ge> length (code st) then Inl NoMoreCode
      else Inr (code st ! (length (code st) - 1 - index)))"

definition popCode :: "'a State_scheme \<Rightarrow> nat \<Rightarrow> error + 'a State_scheme" where
  "popCode st n =
     (if n > length (code st) then Inl NoMoreCode
      else Inr (st\<lparr>code := take (length (code st) - n) (code st)\<rparr>))"

text \<open>\<open>pushCode\<close> with a single value (the argument is not an array).\<close>

definition pushCode :: "'a State_scheme \<Rightarrow> Value \<Rightarrow> 'a State_scheme" where
  "pushCode st v = st\<lparr>code := code st @ [v]\<rparr>"

definition thunk :: "'a State_scheme \<Rightarrow> 'a State_scheme" where
  "thunk st =
     (let st1 = st\<lparr>sink := sink st @ data st, data := []\<rparr>
      in if length (code st1) > 0
         then st1\<lparr>sink := sink st1 @ [last (code st1)], code := butlast (code st1)\<rparr>
         else st1)"

section \<open>Reducer\<close>

text \<open>
  The machine of one call of \<open>evaluate\<close>: the state, the dictionary (\<open>None\<close> when the
  caller passes none), the gas and the number of the next array to be created. The
  dictionary is a JavaScript \<open>Map\<close> from strings to values, of which \<open>evaluate\<close> uses
  \<open>has\<close>, \<open>get\<close>, \<open>set\<close> and \<open>delete\<close>. The type \<open>'g\<close> of the gas is left open: the
  loop only compares the gas with 0, lowers it by one and sets it to 0. The
  parameter is a JavaScript number (the type \<open>number\<close> below) and its default is
  1000000; for a gas that is an integer of at most 2 to the 53, where the doubles
  count exactly, the type \<open>int\<close> gives the same results (lemma
  \<open>evaluate_number_int\<close> below).
\<close>

type_synonym Dictionary = "jsstring \<Rightarrow> Value option"

record 'g Machine = State +
  dictionary :: "Dictionary option"
  gas :: 'g
  fresh :: nat

text \<open>
  \<open>Array.prototype.reverse\<close> reverses an array in place. \<open>rev_at k v\<close> is the value
  \<open>v\<close> after the array \<open>k\<close> has been reversed: every alias of the array shows the new
  order. \<open>reverse_in_place k m\<close> is the machine after that: the values on the three
  stacks and the bindings of the dictionary are all the values the machine can
  reach. No other statement of the interpreter changes an array of a value: the
  stacks are arrays of their own, and \<open>catenate\<close> copies the children it splices
  into a new array.
\<close>

fun rev_at :: "nat \<Rightarrow> Value \<Rightarrow> Value" where
  "rev_at k (Catenate j children) =
     (if j = k then Catenate j (rev (map (rev_at k) children))
      else Catenate j (map (rev_at k) children))"
| "rev_at k (Quote b) = Quote (rev_at k b)"
| "rev_at k v = v"

definition reverse_in_place :: "nat \<Rightarrow> 'g Machine \<Rightarrow> 'g Machine" where
  "reverse_in_place k m =
     m\<lparr>code := map (rev_at k) (code m),
       data := map (rev_at k) (data m),
       sink := map (rev_at k) (sink m),
       dictionary := map_option (\<lambda>d name. map_option (rev_at k) (d name)) (dictionary m)\<rparr>"

text \<open>
  \<open>pushCode\<close> with an array: \<open>this.code.push(...value.reverse())\<close>. The argument is
  the children array of a Catenate, number \<open>k\<close> with the contents \<open>children\<close>; it is
  reversed in place, and the elements are pushed in the reversed order.
\<close>

definition pushCode_array :: "'g Machine \<Rightarrow> nat \<Rightarrow> Value list \<Rightarrow> 'g Machine" where
  "pushCode_array m k children =
     (let m1 = reverse_in_place k m in m1\<lparr>code := code m1 @ rev children\<rparr>)"

definition bind_e :: "error + 'a \<Rightarrow> ('a \<Rightarrow> error + 'b) \<Rightarrow> error + 'b" where
  "bind_e r f = (case r of Inl e \<Rightarrow> Inl e | Inr x \<Rightarrow> f x)"

text \<open>The scan of \<open>Shift\<close> for the constant \<open>Reset\<close>, from the index 1 upward.\<close>

function shift_scan ::
  "'g Machine \<Rightarrow> nat \<Rightarrow> Value list \<Rightarrow> error + (nat \<times> Value list)" where
  "shift_scan m index buf =
     (if index < numCode m then
        (case getCode m index of
           Inl e \<Rightarrow> Inl e
         | Inr c \<Rightarrow>
             if c = Constant (js ''Reset'') then Inr (index, buf)
             else shift_scan m (index + 1) (buf @ [c]))
      else Inr (index, buf))"
  by pat_completeness auto
termination
  by (relation "measure (\<lambda>(m, index, buf). numCode m - index)") auto

declare shift_scan.simps [simp del]

text \<open>
  The \<open>case\<close>s of the \<open>switch\<close> on the name of a Constant, one definition each. A
  \<open>try\<close> block is the computation up to its first exception; every exception of the
  model is a \<open>Panic\<close>, so the \<open>catch\<close> clause always takes its \<open>thunk\<close> branch, with
  \<open>gas = 0\<close> where the source has it. The statements after a \<open>try\<close> block are not
  guarded: an exception there would leave \<open>evaluate\<close>.
\<close>

definition op_Copy :: "'g Machine \<Rightarrow> error + 'g Machine" where
  "op_Copy m =
     (case getData m 0 of
        Inl err \<Rightarrow> Inr (thunk m)
      | Inr v \<Rightarrow> bind_e (popCode m 1) (\<lambda>m1. Inr (pushData m1 v)))"

definition op_Drop :: "'g Machine \<Rightarrow> error + 'g Machine" where
  "op_Drop m =
     (case getData m 0 of
        Inl err \<Rightarrow> Inr (thunk m)
      | Inr v \<Rightarrow> bind_e (popCode m 1) (\<lambda>m1. popData m1 1))"

definition op_Swap :: "'g Machine \<Rightarrow> error + 'g Machine" where
  "op_Swap m =
     (case bind_e (getData m 0) (\<lambda>fst_v. bind_e (getData m 1) (\<lambda>snd_v. Inr (fst_v, snd_v))) of
        Inl err \<Rightarrow> Inr (thunk m)
      | Inr (fst_v, snd_v) \<Rightarrow>
          bind_e (popCode m 1) (\<lambda>m1. bind_e (popData m1 2) (\<lambda>m2.
            Inr (pushData (pushData m2 fst_v) snd_v))))"

definition op_Cat :: "'g Machine \<Rightarrow> error + 'g Machine" where
  "op_Cat m =
     (case bind_e (bind_e (getData m 1) body) (\<lambda>lhs.
             bind_e (bind_e (getData m 0) body) (\<lambda>rhs. Inr (lhs, rhs))) of
        Inl err \<Rightarrow> Inr (thunk m)
      | Inr (lhs, rhs) \<Rightarrow>
          bind_e (popCode m 1) (\<lambda>m1. bind_e (popData m1 2) (\<lambda>m2.
            Inr (pushCode (m2\<lparr>fresh := Suc (fresh m2)\<rparr>)
                   (Quote (catenate (fresh m2) [lhs, rhs]))))))"

definition op_Abs :: "'g Machine \<Rightarrow> error + 'g Machine" where
  "op_Abs m =
     (case getData m 0 of
        Inl err \<Rightarrow> Inr (thunk m)
      | Inr v \<Rightarrow>
          bind_e (popCode m 1) (\<lambda>m1. bind_e (popData m1 1) (\<lambda>m2.
            Inr (pushData m2 (Quote v)))))"

definition op_App :: "('g::zero) Machine \<Rightarrow> error + 'g Machine" where
  "op_App m =
     (case bind_e (getData m 0) body of
        Inl err \<Rightarrow> Inr ((thunk m)\<lparr>gas := 0\<rparr>)
      | Inr b \<Rightarrow>
          bind_e (popCode m 1) (\<lambda>m1. bind_e (popData m1 1) (\<lambda>m2.
            Inr (pushCode m2 b))))"

definition op_Inl :: "('g::zero) Machine \<Rightarrow> error + 'g Machine" where
  "op_Inl m =
     (case bind_e (getData m 0) (\<lambda>v. bind_e (bind_e (getData m 2) body) (\<lambda>inl.
             bind_e (bind_e (getData m 1) body) (\<lambda>inr. Inr (v, inl, inr)))) of
        Inl err \<Rightarrow> Inr ((thunk m)\<lparr>gas := 0\<rparr>)
      | Inr (v, inl, inr) \<Rightarrow>
          bind_e (popCode m 1) (\<lambda>m1. bind_e (popData m1 3) (\<lambda>m2.
            Inr (pushData (pushCode m2 inl) v))))"

definition op_Inr :: "('g::zero) Machine \<Rightarrow> error + 'g Machine" where
  "op_Inr m =
     (case bind_e (getData m 0) (\<lambda>v. bind_e (bind_e (getData m 2) body) (\<lambda>inl.
             bind_e (bind_e (getData m 1) body) (\<lambda>inr. Inr (v, inl, inr)))) of
        Inl err \<Rightarrow> Inr ((thunk m)\<lparr>gas := 0\<rparr>)
      | Inr (v, inl, inr) \<Rightarrow>
          bind_e (popCode m 1) (\<lambda>m1. bind_e (popData m1 3) (\<lambda>m2.
            Inr (pushData (pushCode m2 inr) v))))"

definition op_Pair :: "'g Machine \<Rightarrow> error + 'g Machine" where
  "op_Pair m =
     (case bind_e (getData m 1) (\<lambda>fst_v. bind_e (getData m 0) (\<lambda>snd_v. Inr (fst_v, snd_v))) of
        Inl err \<Rightarrow> Inr (thunk m)
      | Inr (fst_v, snd_v) \<Rightarrow>
          bind_e (popCode m 1) (\<lambda>m1. bind_e (popData m1 2) (\<lambda>m2.
            Inr (pushData (m2\<lparr>fresh := Suc (fresh m2)\<rparr>)
                   (Quote (catenate (fresh m2) [fst_v, snd_v]))))))"

text \<open>
  \<open>Shift\<close>: the whole case is one \<open>try\<close> block. \<open>popData\<close> stands after \<open>popCode\<close>
  in it, so its exception would find the code already popped.
\<close>

definition op_Shift :: "('g::zero) Machine \<Rightarrow> error + 'g Machine" where
  "op_Shift m =
     (case bind_e (getData m 0) body of
        Inl err \<Rightarrow> Inr ((thunk m)\<lparr>gas := 0\<rparr>)
      | Inr handler \<Rightarrow>
          (case shift_scan m 1 [] of
             Inl err \<Rightarrow> Inr ((thunk m)\<lparr>gas := 0\<rparr>)
           | Inr (index, buf) \<Rightarrow>
               if index \<ge> numCode m then Inr ((thunk m)\<lparr>gas := 0\<rparr>)
               else
                 (case popCode m (index + 1) of
                    Inl err \<Rightarrow> Inr ((thunk m)\<lparr>gas := 0\<rparr>)
                  | Inr m1 \<Rightarrow>
                      (case popData m1 1 of
                         Inl err \<Rightarrow> Inr ((thunk m1)\<lparr>gas := 0\<rparr>)
                       | Inr m2 \<Rightarrow>
                           Inr (pushCode
                                  (pushData (m2\<lparr>fresh := Suc (fresh m2)\<rparr>)
                                     (Quote (catenate (fresh m2) buf)))
                                  handler)))))"

definition op_Reset :: "('g::zero) Machine \<Rightarrow> error + 'g Machine" where
  "op_Reset m = Inr ((thunk m)\<lparr>gas := 0\<rparr>)"

definition op_Define :: "('g::zero) Machine \<Rightarrow> error + 'g Machine" where
  "op_Define m =
     (case dictionary m of
        None \<Rightarrow> Inr ((thunk m)\<lparr>gas := 0\<rparr>)
      | Some d \<Rightarrow>
          (case bind_e (bind_e (getData m 0) text_of) (\<lambda>name.
                  bind_e (bind_e (getData m 1) body) (\<lambda>b. Inr (name, b))) of
             Inl err \<Rightarrow> Inr ((thunk m)\<lparr>gas := 0\<rparr>)
           | Inr (name, b) \<Rightarrow>
               bind_e (popCode m 1) (\<lambda>m1. bind_e (popData m1 2) (\<lambda>m2.
                 Inr (m2\<lparr>dictionary := Some (d(name \<mapsto> b))\<rparr>)))))"

definition op_Delete :: "('g::zero) Machine \<Rightarrow> error + 'g Machine" where
  "op_Delete m =
     (case dictionary m of
        None \<Rightarrow> Inr ((thunk m)\<lparr>gas := 0\<rparr>)
      | Some d \<Rightarrow>
          (case bind_e (getData m 0) text_of of
             Inl err \<Rightarrow> Inr ((thunk m)\<lparr>gas := 0\<rparr>)
           | Inr name \<Rightarrow>
               bind_e (popCode m 1) (\<lambda>m1. bind_e (popData m1 1) (\<lambda>m2.
                 Inr (m2\<lparr>dictionary := Some (d(name := None))\<rparr>)))))"

text \<open>
  The \<open>switch\<close> itself. It has no \<open>default\<close>: a name that is none of its \<open>case\<close>s
  leaves the machine as it is.
\<close>

definition combinator :: "jsstring \<Rightarrow> ('g::zero) Machine \<Rightarrow> error + 'g Machine" where
  "combinator name m =
     (if name = js ''Copy'' then op_Copy m
      else if name = js ''Drop'' then op_Drop m
      else if name = js ''Swap'' then op_Swap m
      else if name = js ''Cat'' then op_Cat m
      else if name = js ''Abs'' then op_Abs m
      else if name = js ''App'' then op_App m
      else if name = js ''Inl'' then op_Inl m
      else if name = js ''Inr'' then op_Inr m
      else if name = js ''Pair'' then op_Pair m
      else if name = js ''Shift'' then op_Shift m
      else if name = js ''Reset'' then op_Reset m
      else if name = js ''Define'' then op_Define m
      else if name = js ''Delete'' then op_Delete m
      else Inr m)"

text \<open>
  One round of the loop of \<open>evaluate\<close>: \<open>gas--\<close>, then the dispatch on the class of
  the value on top of the code. A value of no class that the chain of \<open>instanceof\<close>
  tests names (that is, an \<open>Id\<close>) reaches the final \<open>else\<close>, which throws \<open>Unknown\<close>.
\<close>

definition iteration :: "('g::{zero,one,minus}) Machine \<Rightarrow> error + 'g Machine" where
  "iteration m0 =
     (let m = m0\<lparr>gas := gas m0 - 1\<rparr> in
      bind_e (getCode m 0) (\<lambda>hand.
        case hand of
          Catenate k children \<Rightarrow>
            bind_e (popCode m 1) (\<lambda>m1. Inr (pushCode_array m1 k children))
        | Variable name \<Rightarrow>
            (case dictionary m of
               None \<Rightarrow> Inr ((thunk m)\<lparr>gas := 0\<rparr>)
             | Some d \<Rightarrow>
                 (case d name of
                    None \<Rightarrow> Inr ((thunk m)\<lparr>gas := 0\<rparr>)
                  | Some binding \<Rightarrow>
                      bind_e (popCode m 1) (\<lambda>m1. Inr (pushCode m1 binding))))
        | Quote b \<Rightarrow> bind_e (popCode m 1) (\<lambda>m1. Inr (pushData m1 hand))
        | Text s \<Rightarrow> bind_e (popCode m 1) (\<lambda>m1. Inr (pushData m1 hand))
        | Prompt s \<Rightarrow> Inr ((thunk m)\<lparr>gas := 0\<rparr>)
        | Constant name \<Rightarrow> combinator name m
        | IdV \<Rightarrow> Inl (Unknown hand)))"

text \<open>
  The loop of \<open>evaluate\<close> ends because every round lowers the gas: a round that
  returns leaves the gas one lower, or sets it to 0. \<open>gas_ok g r\<close> says so of the
  result \<open>r\<close> of a round.
\<close>

definition gas_ok :: "('g::zero) \<Rightarrow> error + 'g Machine \<Rightarrow> bool" where
  "gas_ok g r = (case r of Inl e \<Rightarrow> True | Inr m' \<Rightarrow> gas m' = g \<or> gas m' = 0)"

lemma gas_ok_simps [simp]:
  "gas_ok g (Inl e)" "gas_ok g (Inr m') \<longleftrightarrow> gas m' = g \<or> gas m' = 0"
  by (simp_all add: gas_ok_def)

lemma gas_thunk [simp]: "gas (thunk m) = gas m"
  by (simp add: thunk_def Let_def)
lemma gas_pushData [simp]: "gas (pushData m v) = gas m"
  by (simp add: pushData_def)
lemma gas_pushCode [simp]: "gas (pushCode m v) = gas m"
  by (simp add: pushCode_def)
lemma gas_pushCode_array [simp]: "gas (pushCode_array m k cs) = gas m"
  by (simp add: pushCode_array_def reverse_in_place_def Let_def)

lemma gas_ok_popCode:
  "(\<And>m1. gas m1 = gas m \<Longrightarrow> gas_ok g (f m1)) \<Longrightarrow> gas_ok g (bind_e (popCode m n) f)"
  by (simp add: bind_e_def popCode_def)
lemma gas_ok_popData:
  "(\<And>m1. gas m1 = gas m \<Longrightarrow> gas_ok g (f m1)) \<Longrightarrow> gas_ok g (bind_e (popData m n) f)"
  by (simp add: bind_e_def popData_def)
lemma gas_ok_popData':
  "gas m1 = g \<Longrightarrow> gas_ok g (popData m1 n)"
  by (simp add: popData_def)

lemmas gas_ok_pops = gas_ok_popCode gas_ok_popData

lemma gas_op_Copy: "gas_ok (gas m) (op_Copy m)"
  by (auto simp: op_Copy_def split: sum.split prod.split intro!: gas_ok_pops)
lemma gas_op_Drop: "gas_ok (gas m) (op_Drop m)"
  by (auto simp: op_Drop_def gas_ok_popData' split: sum.split prod.split intro!: gas_ok_pops)
lemma gas_op_Swap: "gas_ok (gas m) (op_Swap m)"
  by (auto simp: op_Swap_def split: sum.split prod.split intro!: gas_ok_pops)
lemma gas_op_Cat: "gas_ok (gas m) (op_Cat m)"
  by (auto simp: op_Cat_def split: sum.split prod.split intro!: gas_ok_pops)
lemma gas_op_Abs: "gas_ok (gas m) (op_Abs m)"
  by (auto simp: op_Abs_def split: sum.split prod.split intro!: gas_ok_pops)
lemma gas_op_App: "gas_ok (gas m) (op_App m)"
  by (auto simp: op_App_def split: sum.split prod.split intro!: gas_ok_pops)
lemma gas_op_Inl: "gas_ok (gas m) (op_Inl m)"
  by (auto simp: op_Inl_def split: sum.split prod.split intro!: gas_ok_pops)
lemma gas_op_Inr: "gas_ok (gas m) (op_Inr m)"
  by (auto simp: op_Inr_def split: sum.split prod.split intro!: gas_ok_pops)
lemma gas_op_Pair: "gas_ok (gas m) (op_Pair m)"
  by (auto simp: op_Pair_def split: sum.split prod.split intro!: gas_ok_pops)
lemma gas_op_Shift: "gas_ok (gas m) (op_Shift m)"
  by (auto simp: op_Shift_def popCode_def popData_def split: sum.split prod.split)
lemma gas_op_Reset: "gas_ok (gas m) (op_Reset m)"
  by (simp add: op_Reset_def)
lemma gas_op_Define: "gas_ok (gas m) (op_Define m)"
  by (auto simp: op_Define_def split: sum.split prod.split option.split intro!: gas_ok_pops)
lemma gas_op_Delete: "gas_ok (gas m) (op_Delete m)"
  by (auto simp: op_Delete_def split: sum.split prod.split option.split intro!: gas_ok_pops)

lemmas gas_ops = gas_op_Copy gas_op_Drop gas_op_Swap gas_op_Cat gas_op_Abs gas_op_App
  gas_op_Inl gas_op_Inr gas_op_Pair gas_op_Shift gas_op_Reset gas_op_Define gas_op_Delete

lemma gas_combinator: "gas_ok (gas m) (combinator name m)"
  by (simp add: combinator_def gas_ops)

lemma gas_iteration: "gas_ok (gas m - 1) (iteration m)"
proof -
  let ?m = "m\<lparr>gas := gas m - 1\<rparr>"
  have c: "gas_ok (gas m - 1) (combinator name ?m)" for name
    using gas_combinator [of ?m name] by simp
  show ?thesis
  proof (cases "getCode ?m 0")
    case (Inl e)
    then show ?thesis by (simp add: iteration_def Let_def bind_e_def)
  next
    case (Inr hand)
    then have "iteration m = (case hand of
          Catenate k children \<Rightarrow>
            bind_e (popCode ?m 1) (\<lambda>m1. Inr (pushCode_array m1 k children))
        | Variable name \<Rightarrow>
            (case dictionary ?m of
               None \<Rightarrow> Inr ((thunk ?m)\<lparr>gas := 0\<rparr>)
             | Some d \<Rightarrow>
                 (case d name of
                    None \<Rightarrow> Inr ((thunk ?m)\<lparr>gas := 0\<rparr>)
                  | Some binding \<Rightarrow>
                      bind_e (popCode ?m 1) (\<lambda>m1. Inr (pushCode m1 binding))))
        | Quote b \<Rightarrow> bind_e (popCode ?m 1) (\<lambda>m1. Inr (pushData m1 hand))
        | Text s \<Rightarrow> bind_e (popCode ?m 1) (\<lambda>m1. Inr (pushData m1 hand))
        | Prompt s \<Rightarrow> Inr ((thunk ?m)\<lparr>gas := 0\<rparr>)
        | Constant name \<Rightarrow> combinator name ?m
        | IdV \<Rightarrow> Inl (Unknown hand))"
      by (simp add: iteration_def Let_def bind_e_def)
    then show ?thesis
      by (cases hand) (auto simp: c split: option.split intro!: gas_ok_pops)
  qed
qed

text \<open>
  The loop \<open>while (state.code.length > 0 && gas > 0)\<close>. The second component
  counts the rounds of the loop; it is not part of the program.
\<close>

function run :: "int Machine \<Rightarrow> nat \<Rightarrow> (error + int Machine) \<times> nat" where
  "run m n =
     (if length (code m) > 0 \<and> gas m > 0 then
        (case iteration m of
           Inl e \<Rightarrow> (Inl e, Suc n)
         | Inr m' \<Rightarrow> run m' (Suc n))
      else (Inr m, n))"
  by pat_completeness auto
termination
proof (relation "measure (\<lambda>(m, n). nat (gas m))")
  fix m :: "int Machine" and n :: nat and m' :: "int Machine"
  assume "0 < length (code m) \<and> 0 < gas m" and "iteration m = Inr m'"
  with gas_iteration [of m] show "((m', Suc n), m, n) \<in> measure (\<lambda>(m, n). nat (gas m))"
    by auto
qed simp

declare run.simps [simp del]

text \<open>
  \<open>evaluate\<close> on a parsed value: the result is \<open>Inl\<close> of the exception that left
  the loop, or \<open>Inr\<close> of the residual. \<open>k\<close> is the number of the next array to be
  created. \<open>evaluate_source\<close> is the call with a string, which \<open>read\<close> parses first,
  and \<open>render\<close> is \<open>toString\<close> of the result.
\<close>

definition initial :: "Value \<Rightarrow> Dictionary option \<Rightarrow> 'g \<Rightarrow> nat \<Rightarrow> 'g Machine" where
  "initial init d g k =
     \<lparr>code = [init], data = [], sink = [], dictionary = d, gas = g, fresh = k\<rparr>"

definition residual :: "'g Machine \<Rightarrow> Value" where
  "residual m = catenate (fresh m) (sink m @ data m @ rev (code m))"

definition evaluate :: "Value \<Rightarrow> Dictionary option \<Rightarrow> int \<Rightarrow> nat \<Rightarrow> error + Value" where
  "evaluate init d g k =
     (case fst (run (initial init d g k) 0) of
        Inl e \<Rightarrow> Inl e
      | Inr m \<Rightarrow> Inr (residual m))"

definition evaluate_iterations :: "Value \<Rightarrow> Dictionary option \<Rightarrow> int \<Rightarrow> nat \<Rightarrow> nat" where
  "evaluate_iterations init d g k = snd (run (initial init d g k) 0)"

definition evaluate_source ::
  "jsstring \<Rightarrow> Dictionary option \<Rightarrow> int \<Rightarrow> nat \<Rightarrow> error + Value" where
  "evaluate_source src d g k =
     (case read src k of
        Inl e \<Rightarrow> Inl e
      | Inr (init, k') \<Rightarrow> evaluate init d g k')"

definition render :: "error + Value \<Rightarrow> error + jsstring" where
  "render r = (case r of Inl e \<Rightarrow> Inl e | Inr v \<Rightarrow> Inr (toString v))"

section \<open>Gas as a JavaScript number\<close>

text \<open>
  The parameter \<open>gas\<close> of \<open>evaluate\<close> is a JavaScript number, that is an IEEE 754
  double, and the loop does three things with it: \<open>gas > 0\<close>, \<open>gas--\<close> and
  \<open>gas = 0\<close>. The machine above leaves the type of the gas open; \<open>number\<close> is the
  type of the doubles: the finite ones by their real value, the two infinities and
  NaN. The two zeros are one value here: the loop cannot tell them apart, since
  \<open>-0 > 0\<close> is false and \<open>-0 - 1\<close> is \<open>-1\<close>.

  \<open>round_double y\<close> is the double nearest to the real \<open>y\<close>, a tie going to the even
  significand. \<open>quantum y\<close> is the distance between the doubles around \<open>y\<close>:
  \<open>2\<close> to the power \<open>e - 52\<close> for \<open>y\<close> of magnitude from \<open>2\<close> to the \<open>e\<close> up to \<open>2\<close> to the
  \<open>e + 1\<close>, and the \<open>e\<close> of the subnormal doubles is \<open>-1022\<close>. A result of magnitude
  \<open>2\<close> to the \<open>1024\<close> or more is infinite.
\<close>

datatype number = Finite real | PosInf | NegInf | NaN

definition round_half_even :: "real \<Rightarrow> int" where
  "round_half_even q =
     (let n = \<lfloor>q\<rfloor>; r = q - of_int n in
      if r < 1 / 2 then n
      else if 1 / 2 < r then n + 1
      else if even n then n else n + 1)"

definition quantum :: "real \<Rightarrow> real" where
  "quantum y = 2 powr of_int (max \<lfloor>log 2 \<bar>y\<bar>\<rfloor> (- 1022) - 52)"

definition round_double :: "real \<Rightarrow> number" where
  "round_double y =
     (if y = 0 then Finite 0
      else
        let r = of_int (round_half_even (y / quantum y)) * quantum y in
        if 2 ^ 1024 \<le> r then PosInf
        else if r \<le> - (2 ^ 1024) then NegInf
        else Finite r)"

text \<open>
  The operations of the loop on doubles: the literals \<open>0\<close> and \<open>1\<close>, the subtraction
  of \<open>gas--\<close> and the comparison of \<open>gas > 0\<close>, which is false of NaN.
\<close>

instantiation number :: "{zero, one, minus, ord}"
begin

definition zero_number :: number where
  "zero_number = Finite 0"

definition one_number :: number where
  "one_number = Finite 1"

definition minus_number :: "number \<Rightarrow> number \<Rightarrow> number" where
  "minus_number x y =
     (case (x, y) of
        (NaN, _) \<Rightarrow> NaN
      | (_, NaN) \<Rightarrow> NaN
      | (Finite a, Finite b) \<Rightarrow> round_double (a - b)
      | (Finite a, PosInf) \<Rightarrow> NegInf
      | (Finite a, NegInf) \<Rightarrow> PosInf
      | (PosInf, PosInf) \<Rightarrow> NaN
      | (PosInf, _) \<Rightarrow> PosInf
      | (NegInf, NegInf) \<Rightarrow> NaN
      | (NegInf, _) \<Rightarrow> NegInf)"

definition less_number :: "number \<Rightarrow> number \<Rightarrow> bool" where
  "less_number x y =
     (case (x, y) of
        (Finite a, Finite b) \<Rightarrow> a < b
      | (Finite a, PosInf) \<Rightarrow> True
      | (NegInf, Finite b) \<Rightarrow> True
      | (NegInf, PosInf) \<Rightarrow> True
      | _ \<Rightarrow> False)"

definition less_eq_number :: "number \<Rightarrow> number \<Rightarrow> bool" where
  "less_eq_number x y =
     (case (x, y) of
        (Finite a, Finite b) \<Rightarrow> a \<le> b
      | (Finite a, PosInf) \<Rightarrow> True
      | (NegInf, Finite b) \<Rightarrow> True
      | (NegInf, PosInf) \<Rightarrow> True
      | (PosInf, PosInf) \<Rightarrow> True
      | (NegInf, NegInf) \<Rightarrow> True
      | _ \<Rightarrow> False)"

instance ..

end

text \<open>
  The loop of \<open>evaluate\<close> at any type of gas. Nothing says that it ends there: the
  result is \<open>None\<close> when it does not. With the gas a \<open>number\<close> this is the loop of
  the program; with the gas an integer it is \<open>run\<close> (lemma \<open>run_gas_int\<close> below).
  \<open>evaluate_number\<close> is \<open>evaluate\<close> on a parsed value with the gas a double: the
  result of the call and the number of rounds of the loop, if the call returns.
\<close>

partial_function (option) run_gas ::
  "('g::{zero,one,minus,ord}) Machine \<Rightarrow> nat \<Rightarrow> ((error + 'g Machine) \<times> nat) option" where
  "run_gas m n =
     (if length (code m) > 0 \<and> gas m > 0 then
        (case iteration m of
           Inl e \<Rightarrow> Some (Inl e, Suc n)
         | Inr m' \<Rightarrow> run_gas m' (Suc n))
      else Some (Inr m, n))"

definition evaluate_number ::
  "Value \<Rightarrow> Dictionary option \<Rightarrow> number \<Rightarrow> nat \<Rightarrow> ((error + Value) \<times> nat) option" where
  "evaluate_number init d g k =
     (case run_gas (initial init d g k) 0 of
        None \<Rightarrow> None
      | Some (r, n) \<Rightarrow> Some (case r of Inl e \<Rightarrow> Inl e | Inr m \<Rightarrow> Inr (residual m), n))"

text \<open>
  \<open>with_gas f m\<close> is the machine \<open>m\<close> with the gas read through \<open>f\<close>, which may change
  its type, and \<open>lift_gas f\<close> does the same to the result of a round. They relate the
  loop on integers to the loop on doubles.
\<close>

definition with_gas :: "('g \<Rightarrow> 'h) \<Rightarrow> 'g Machine \<Rightarrow> 'h Machine" where
  "with_gas f m =
     \<lparr>code = code m, data = data m, sink = sink m, dictionary = dictionary m,
      gas = f (gas m), fresh = fresh m\<rparr>"

definition lift_gas :: "('g \<Rightarrow> 'h) \<Rightarrow> error + 'g Machine \<Rightarrow> error + 'h Machine" where
  "lift_gas f r = (case r of Inl e \<Rightarrow> Inl e | Inr m \<Rightarrow> Inr (with_gas f m))"

section \<open>The extended variant\<close>

text \<open>
  \<open>dovetale/script.ts\<close> is a second copy of the interpreter, the one that the tests
  of \<open>dovetale/script_test.ts\<close> run. It has seven classes of values more: \<open>Inl\<close>,
  \<open>Inr\<close>, \<open>Unit\<close> and \<open>Pair\<close>, which are data, and \<open>RunInl\<close>, \<open>RunInr\<close> and \<open>RunPair\<close>,
  which are the instructions that the getter \<open>body\<close> of the first three returns.
  The combinators \<open>Inl\<close>, \<open>Inr\<close> and \<open>Pair\<close> build a value there, and \<open>App\<close> runs it.
  The definitions of this variant carry the names of the source with an \<open>X\<close> at
  the end; strings, \<open>join\<close> and the classes of characters are those of above.
\<close>

subsection \<open>Values\<close>

datatype ValueX =
    IdX
  | ConstantX jsstring
  | VariableX jsstring
  | CatenateX nat "ValueX list"
  | QuoteX ValueX
  | InlX ValueX
  | InrX ValueX
  | UnitX
  | PairX ValueX ValueX
  | RunInlX ValueX
  | RunInrX ValueX
  | RunPairX ValueX ValueX
  | TextX jsstring
  | PromptX jsstring

datatype errorX =
    NoMoreDataX
  | NoMoreCodeX
  | NoShiftX
  | NoSuchPropertyX string
  | UnreadableX string
  | UnknownX ValueX

fun bodyX :: "ValueX \<Rightarrow> errorX + ValueX" where
  "bodyX (QuoteX b) = Inr b"
| "bodyX (InlX e) = Inr (RunInlX e)"
| "bodyX (InrX e) = Inr (RunInrX e)"
| "bodyX UnitX = Inr IdX"
| "bodyX (PairX fst_v snd_v) = Inr (RunPairX fst_v snd_v)"
| "bodyX v = Inl (NoSuchPropertyX ''body'')"

fun text_ofX :: "ValueX \<Rightarrow> errorX + jsstring" where
  "text_ofX (TextX s) = Inr s"
| "text_ofX v = Inl (NoSuchPropertyX ''string'')"

fun toStringX :: "ValueX \<Rightarrow> jsstring" where
  "toStringX IdX = []"
| "toStringX (ConstantX name) = name"
| "toStringX (VariableX name) = name"
| "toStringX (CatenateX k children) = join (js '' '') (map toStringX children)"
| "toStringX (QuoteX b) = js ''['' @ toStringX b @ js '']''"
| "toStringX (InlX e) = toStringX e @ js '' J''"
| "toStringX (InrX e) = toStringX e @ js '' K''"
| "toStringX UnitX = js ''[]''"
| "toStringX (PairX fst_v snd_v) = toStringX fst_v @ js '' '' @ toStringX snd_v @ js '' L''"
| "toStringX (RunInlX e) = toStringX e @ js '' J H''"
| "toStringX (RunInrX e) = toStringX e @ js '' K H''"
| "toStringX (RunPairX fst_v snd_v) =
     toStringX fst_v @ js '' '' @ toStringX snd_v @ js '' L H''"
| "toStringX (TextX s) = js [CHR 0x22] @ s @ js [CHR 0x22]"
| "toStringX (PromptX s) = js ''{'' @ s @ js ''}''"

fun splicedX :: "ValueX \<Rightarrow> ValueX list" where
  "splicedX IdX = []"
| "splicedX (CatenateX k children) = children"
| "splicedX v = [v]"

definition catenateX :: "nat \<Rightarrow> ValueX list \<Rightarrow> ValueX" where
  "catenateX k values =
     (let buf = foldl (\<lambda>buf v. buf @ splicedX v) [] values
      in if length buf = 0 then IdX else CatenateX k buf)"

subsection \<open>Parser\<close>

text \<open>
  \<open>read\<close> as above, but for the closing bracket: a list with nothing in it is a
  \<open>Unit\<close>, not a Quote of \<open>Id\<close>.
\<close>

function read_loopX ::
  "jsstring \<Rightarrow> ValueX list \<Rightarrow> ValueX list list \<Rightarrow> nat \<Rightarrow> errorX + (ValueX \<times> nat)" where
  "read_loopX [] build stack k =
     (if length stack > 0 then Inl (UnreadableX ''Unbalanced brackets'')
      else Inr (catenateX k build, Suc k))"
| "read_loopX (c # cs) build stack k =
     (if isSpace c then
        read_loopX (dropWhile isSpace (c # cs)) build stack k
      else if c = of_char CHR ''['' then
        read_loopX cs [] (stack @ [build]) k
      else if c = of_char CHR '']'' then
        (if length stack = 0 then Inl (UnreadableX ''Unbalanced brackets'')
         else
           (let b = catenateX k build;
                v = (if b = IdX then UnitX else QuoteX b)
            in read_loopX cs (last stack @ [v]) (butlast stack) (Suc k)))
      else if c = of_char (CHR 0x22) then
        (let s = takeWhile (\<lambda>x. x \<noteq> of_char (CHR 0x22)) cs;
             rest = dropWhile (\<lambda>x. x \<noteq> of_char (CHR 0x22)) cs
         in if rest = [] then Inl (UnreadableX ''Unbalanced quotes'')
            else read_loopX (tl rest) (build @ [TextX s]) stack k)
      else if c = of_char CHR ''{'' then
        (let s = takeWhile (\<lambda>x. x \<noteq> of_char CHR ''}'') cs;
             rest = dropWhile (\<lambda>x. x \<noteq> of_char CHR ''}'') cs
         in if rest = [] then Inl (UnreadableX ''Unbalanced braces'')
            else read_loopX (tl rest) (build @ [PromptX s]) stack k)
      else if isUpper c then
        (let name = c # takeWhile (\<lambda>x. \<not> isSeparator x) cs;
             rest = dropWhile (\<lambda>x. \<not> isSeparator x) cs
         in if \<not> (isUpper (hd name) \<and> list_all isNameChar (tl name))
            then Inl (UnreadableX ''Unknown symbol'')
            else read_loopX rest (build @ [ConstantX name]) stack k)
      else
        (let name = c # takeWhile (\<lambda>x. \<not> isSeparator x) cs;
             rest = dropWhile (\<lambda>x. \<not> isSeparator x) cs
         in if \<not> (isLower (hd name) \<and> list_all isNameChar (tl name))
            then Inl (UnreadableX ''Unknown symbol'')
            else read_loopX rest (build @ [VariableX name]) stack k))"
  by pat_completeness auto
termination
proof (relation "measure (\<lambda>(src, build, stack, k). length src)")
  show "wf (measure (\<lambda>(src, build, stack, k). length src))"
    by simp
next
  fix c :: nat and cs :: jsstring and build :: "ValueX list"
    and stack :: "ValueX list list" and k :: nat
  assume "isSpace c"
  then have "length (dropWhile isSpace (c # cs)) \<le> length cs"
    by (simp add: length_dropWhile_le)
  then show "((dropWhile isSpace (c # cs), build, stack, k), c # cs, build, stack, k)
      \<in> measure (\<lambda>(src, build, stack, k). length src)"
    by simp
qed (auto simp: less_Suc_eq_le length_dropWhile_le
       intro: le_trans [OF diff_le_self length_dropWhile_le])

declare read_loopX.simps [simp del]

definition readX :: "jsstring \<Rightarrow> nat \<Rightarrow> errorX + (ValueX \<times> nat)" where
  "readX src k = read_loopX src [] [] k"

subsection \<open>Machine state\<close>

text \<open>The class \<open>State\<close> of \<open>script.ts\<close>, the same text as above.\<close>

record StateX =
  codeX :: "ValueX list"
  dataX :: "ValueX list"
  sinkX :: "ValueX list"

definition getDataX :: "'a StateX_scheme \<Rightarrow> nat \<Rightarrow> errorX + ValueX" where
  "getDataX st index =
     (if index \<ge> length (dataX st) then Inl NoMoreDataX
      else Inr (dataX st ! (length (dataX st) - 1 - index)))"

definition popDataX :: "'a StateX_scheme \<Rightarrow> nat \<Rightarrow> errorX + 'a StateX_scheme" where
  "popDataX st n =
     (if n > length (dataX st) then Inl NoMoreDataX
      else Inr (st\<lparr>dataX := take (length (dataX st) - n) (dataX st)\<rparr>))"

definition pushDataX :: "'a StateX_scheme \<Rightarrow> ValueX \<Rightarrow> 'a StateX_scheme" where
  "pushDataX st v = st\<lparr>dataX := dataX st @ [v]\<rparr>"

definition numCodeX :: "'a StateX_scheme \<Rightarrow> nat" where
  "numCodeX st = length (codeX st)"

definition getCodeX :: "'a StateX_scheme \<Rightarrow> nat \<Rightarrow> errorX + ValueX" where
  "getCodeX st index =
     (if index \<ge> length (codeX st) then Inl NoMoreCodeX
      else Inr (codeX st ! (length (codeX st) - 1 - index)))"

definition popCodeX :: "'a StateX_scheme \<Rightarrow> nat \<Rightarrow> errorX + 'a StateX_scheme" where
  "popCodeX st n =
     (if n > length (codeX st) then Inl NoMoreCodeX
      else Inr (st\<lparr>codeX := take (length (codeX st) - n) (codeX st)\<rparr>))"

definition pushCodeX :: "'a StateX_scheme \<Rightarrow> ValueX \<Rightarrow> 'a StateX_scheme" where
  "pushCodeX st v = st\<lparr>codeX := codeX st @ [v]\<rparr>"

definition thunkX :: "'a StateX_scheme \<Rightarrow> 'a StateX_scheme" where
  "thunkX st =
     (let st1 = st\<lparr>sinkX := sinkX st @ dataX st, dataX := []\<rparr>
      in if length (codeX st1) > 0
         then st1\<lparr>sinkX := sinkX st1 @ [last (codeX st1)], codeX := butlast (codeX st1)\<rparr>
         else st1)"

subsection \<open>Reducer\<close>

type_synonym DictionaryX = "jsstring \<Rightarrow> ValueX option"

record 'g MachineX = StateX +
  dictionaryX :: "DictionaryX option"
  gasX :: 'g
  freshX :: nat

text \<open>
  The reversal in place of an array, which may now lie inside a value of one of
  the new classes.
\<close>

fun rev_atX :: "nat \<Rightarrow> ValueX \<Rightarrow> ValueX" where
  "rev_atX k (CatenateX j children) =
     (if j = k then CatenateX j (rev (map (rev_atX k) children))
      else CatenateX j (map (rev_atX k) children))"
| "rev_atX k (QuoteX b) = QuoteX (rev_atX k b)"
| "rev_atX k (InlX e) = InlX (rev_atX k e)"
| "rev_atX k (InrX e) = InrX (rev_atX k e)"
| "rev_atX k (PairX fst_v snd_v) = PairX (rev_atX k fst_v) (rev_atX k snd_v)"
| "rev_atX k (RunInlX e) = RunInlX (rev_atX k e)"
| "rev_atX k (RunInrX e) = RunInrX (rev_atX k e)"
| "rev_atX k (RunPairX fst_v snd_v) = RunPairX (rev_atX k fst_v) (rev_atX k snd_v)"
| "rev_atX k v = v"

definition reverse_in_placeX :: "nat \<Rightarrow> 'g MachineX \<Rightarrow> 'g MachineX" where
  "reverse_in_placeX k m =
     m\<lparr>codeX := map (rev_atX k) (codeX m),
       dataX := map (rev_atX k) (dataX m),
       sinkX := map (rev_atX k) (sinkX m),
       dictionaryX := map_option (\<lambda>d name. map_option (rev_atX k) (d name)) (dictionaryX m)\<rparr>"

definition pushCode_arrayX :: "'g MachineX \<Rightarrow> nat \<Rightarrow> ValueX list \<Rightarrow> 'g MachineX" where
  "pushCode_arrayX m k children =
     (let m1 = reverse_in_placeX k m in m1\<lparr>codeX := codeX m1 @ rev children\<rparr>)"

definition bind_eX :: "errorX + 'a \<Rightarrow> ('a \<Rightarrow> errorX + 'b) \<Rightarrow> errorX + 'b" where
  "bind_eX r f = (case r of Inl e \<Rightarrow> Inl e | Inr x \<Rightarrow> f x)"

function shift_scanX ::
  "'g MachineX \<Rightarrow> nat \<Rightarrow> ValueX list \<Rightarrow> errorX + (nat \<times> ValueX list)" where
  "shift_scanX m index buf =
     (if index < numCodeX m then
        (case getCodeX m index of
           Inl e \<Rightarrow> Inl e
         | Inr c \<Rightarrow>
             if c = ConstantX (js ''Reset'') then Inr (index, buf)
             else shift_scanX m (index + 1) (buf @ [c]))
      else Inr (index, buf))"
  by pat_completeness auto
termination
  by (relation "measure (\<lambda>(m, index, buf). numCodeX m - index)") auto

declare shift_scanX.simps [simp del]

text \<open>
  The three instructions. \<open>RunInl\<close> and \<open>RunInr\<close> read the bodies of the two
  branches in a \<open>try\<close> block, whose \<open>catch\<close> clause stops the reduction; \<open>RunPair\<close>
  has no \<open>try\<close> block.
\<close>

definition op_RunInlX :: "ValueX \<Rightarrow> ('g::zero) MachineX \<Rightarrow> errorX + 'g MachineX" where
  "op_RunInlX e m =
     (case bind_eX (bind_eX (getDataX m 1) bodyX) (\<lambda>inl.
             bind_eX (bind_eX (getDataX m 0) bodyX) (\<lambda>inr. Inr (inl, inr))) of
        Inl err \<Rightarrow> Inr ((thunkX m)\<lparr>gasX := 0\<rparr>)
      | Inr (inl, inr) \<Rightarrow>
          bind_eX (popCodeX m 1) (\<lambda>m1. bind_eX (popDataX m1 2) (\<lambda>m2.
            Inr (pushDataX (pushCodeX m2 inl) e))))"

definition op_RunInrX :: "ValueX \<Rightarrow> ('g::zero) MachineX \<Rightarrow> errorX + 'g MachineX" where
  "op_RunInrX e m =
     (case bind_eX (bind_eX (getDataX m 1) bodyX) (\<lambda>inl.
             bind_eX (bind_eX (getDataX m 0) bodyX) (\<lambda>inr. Inr (inl, inr))) of
        Inl err \<Rightarrow> Inr ((thunkX m)\<lparr>gasX := 0\<rparr>)
      | Inr (inl, inr) \<Rightarrow>
          bind_eX (popCodeX m 1) (\<lambda>m1. bind_eX (popDataX m1 2) (\<lambda>m2.
            Inr (pushDataX (pushCodeX m2 inr) e))))"

definition op_RunPairX :: "ValueX \<Rightarrow> ValueX \<Rightarrow> 'g MachineX \<Rightarrow> errorX + 'g MachineX" where
  "op_RunPairX fst_v snd_v m =
     bind_eX (popCodeX m 1) (\<lambda>m1. Inr (pushDataX (pushDataX m1 fst_v) snd_v))"

text \<open>The \<open>case\<close>s of the \<open>switch\<close>.\<close>

definition op_CopyX :: "'g MachineX \<Rightarrow> errorX + 'g MachineX" where
  "op_CopyX m =
     (case getDataX m 0 of
        Inl err \<Rightarrow> Inr (thunkX m)
      | Inr v \<Rightarrow> bind_eX (popCodeX m 1) (\<lambda>m1. Inr (pushDataX m1 v)))"

definition op_DropX :: "'g MachineX \<Rightarrow> errorX + 'g MachineX" where
  "op_DropX m =
     (case getDataX m 0 of
        Inl err \<Rightarrow> Inr (thunkX m)
      | Inr v \<Rightarrow> bind_eX (popCodeX m 1) (\<lambda>m1. popDataX m1 1))"

definition op_SwapX :: "'g MachineX \<Rightarrow> errorX + 'g MachineX" where
  "op_SwapX m =
     (case bind_eX (getDataX m 0) (\<lambda>fst_v. bind_eX (getDataX m 1) (\<lambda>snd_v.
             Inr (fst_v, snd_v))) of
        Inl err \<Rightarrow> Inr (thunkX m)
      | Inr (fst_v, snd_v) \<Rightarrow>
          bind_eX (popCodeX m 1) (\<lambda>m1. bind_eX (popDataX m1 2) (\<lambda>m2.
            Inr (pushDataX (pushDataX m2 fst_v) snd_v))))"

definition op_CatX :: "'g MachineX \<Rightarrow> errorX + 'g MachineX" where
  "op_CatX m =
     (case bind_eX (bind_eX (getDataX m 1) bodyX) (\<lambda>lhs.
             bind_eX (bind_eX (getDataX m 0) bodyX) (\<lambda>rhs. Inr (lhs, rhs))) of
        Inl err \<Rightarrow> Inr (thunkX m)
      | Inr (lhs, rhs) \<Rightarrow>
          bind_eX (popCodeX m 1) (\<lambda>m1. bind_eX (popDataX m1 2) (\<lambda>m2.
            Inr (pushCodeX (m2\<lparr>freshX := Suc (freshX m2)\<rparr>)
                   (QuoteX (catenateX (freshX m2) [lhs, rhs]))))))"

definition op_AbsX :: "'g MachineX \<Rightarrow> errorX + 'g MachineX" where
  "op_AbsX m =
     (case getDataX m 0 of
        Inl err \<Rightarrow> Inr (thunkX m)
      | Inr v \<Rightarrow>
          bind_eX (popCodeX m 1) (\<lambda>m1. bind_eX (popDataX m1 1) (\<lambda>m2.
            Inr (pushDataX m2 (QuoteX v)))))"

definition op_AppX :: "('g::zero) MachineX \<Rightarrow> errorX + 'g MachineX" where
  "op_AppX m =
     (case bind_eX (getDataX m 0) bodyX of
        Inl err \<Rightarrow> Inr ((thunkX m)\<lparr>gasX := 0\<rparr>)
      | Inr b \<Rightarrow>
          bind_eX (popCodeX m 1) (\<lambda>m1. bind_eX (popDataX m1 1) (\<lambda>m2.
            Inr (pushCodeX m2 b))))"

definition op_InlX :: "'g MachineX \<Rightarrow> errorX + 'g MachineX" where
  "op_InlX m =
     (case getDataX m 0 of
        Inl err \<Rightarrow> Inr (thunkX m)
      | Inr v \<Rightarrow>
          bind_eX (popCodeX m 1) (\<lambda>m1. bind_eX (popDataX m1 1) (\<lambda>m2.
            Inr (pushDataX m2 (InlX v)))))"

definition op_InrX :: "'g MachineX \<Rightarrow> errorX + 'g MachineX" where
  "op_InrX m =
     (case getDataX m 0 of
        Inl err \<Rightarrow> Inr (thunkX m)
      | Inr v \<Rightarrow>
          bind_eX (popCodeX m 1) (\<lambda>m1. bind_eX (popDataX m1 1) (\<lambda>m2.
            Inr (pushDataX m2 (InrX v)))))"

definition op_PairX :: "'g MachineX \<Rightarrow> errorX + 'g MachineX" where
  "op_PairX m =
     (case bind_eX (getDataX m 1) (\<lambda>fst_v. bind_eX (getDataX m 0) (\<lambda>snd_v.
             Inr (fst_v, snd_v))) of
        Inl err \<Rightarrow> Inr (thunkX m)
      | Inr (fst_v, snd_v) \<Rightarrow>
          bind_eX (popCodeX m 1) (\<lambda>m1. bind_eX (popDataX m1 2) (\<lambda>m2.
            Inr (pushDataX m2 (PairX fst_v snd_v)))))"

definition op_ShiftX :: "('g::zero) MachineX \<Rightarrow> errorX + 'g MachineX" where
  "op_ShiftX m =
     (case bind_eX (getDataX m 0) bodyX of
        Inl err \<Rightarrow> Inr ((thunkX m)\<lparr>gasX := 0\<rparr>)
      | Inr handler \<Rightarrow>
          (case shift_scanX m 1 [] of
             Inl err \<Rightarrow> Inr ((thunkX m)\<lparr>gasX := 0\<rparr>)
           | Inr (index, buf) \<Rightarrow>
               if index \<ge> numCodeX m then Inr ((thunkX m)\<lparr>gasX := 0\<rparr>)
               else
                 (case popCodeX m (index + 1) of
                    Inl err \<Rightarrow> Inr ((thunkX m)\<lparr>gasX := 0\<rparr>)
                  | Inr m1 \<Rightarrow>
                      (case popDataX m1 1 of
                         Inl err \<Rightarrow> Inr ((thunkX m1)\<lparr>gasX := 0\<rparr>)
                       | Inr m2 \<Rightarrow>
                           Inr (pushCodeX
                                  (pushDataX (m2\<lparr>freshX := Suc (freshX m2)\<rparr>)
                                     (QuoteX (catenateX (freshX m2) buf)))
                                  handler)))))"

definition op_ResetX :: "('g::zero) MachineX \<Rightarrow> errorX + 'g MachineX" where
  "op_ResetX m = Inr ((thunkX m)\<lparr>gasX := 0\<rparr>)"

definition op_DefineX :: "('g::zero) MachineX \<Rightarrow> errorX + 'g MachineX" where
  "op_DefineX m =
     (case dictionaryX m of
        None \<Rightarrow> Inr ((thunkX m)\<lparr>gasX := 0\<rparr>)
      | Some d \<Rightarrow>
          (case bind_eX (bind_eX (getDataX m 0) text_ofX) (\<lambda>name.
                  bind_eX (bind_eX (getDataX m 1) bodyX) (\<lambda>b. Inr (name, b))) of
             Inl err \<Rightarrow> Inr ((thunkX m)\<lparr>gasX := 0\<rparr>)
           | Inr (name, b) \<Rightarrow>
               bind_eX (popCodeX m 1) (\<lambda>m1. bind_eX (popDataX m1 2) (\<lambda>m2.
                 Inr (m2\<lparr>dictionaryX := Some (d(name \<mapsto> b))\<rparr>)))))"

definition op_DeleteX :: "('g::zero) MachineX \<Rightarrow> errorX + 'g MachineX" where
  "op_DeleteX m =
     (case dictionaryX m of
        None \<Rightarrow> Inr ((thunkX m)\<lparr>gasX := 0\<rparr>)
      | Some d \<Rightarrow>
          (case bind_eX (getDataX m 0) text_ofX of
             Inl err \<Rightarrow> Inr ((thunkX m)\<lparr>gasX := 0\<rparr>)
           | Inr name \<Rightarrow>
               bind_eX (popCodeX m 1) (\<lambda>m1. bind_eX (popDataX m1 1) (\<lambda>m2.
                 Inr (m2\<lparr>dictionaryX := Some (d(name := None))\<rparr>)))))"

definition combinatorX :: "jsstring \<Rightarrow> ('g::zero) MachineX \<Rightarrow> errorX + 'g MachineX" where
  "combinatorX name m =
     (if name = js ''Copy'' then op_CopyX m
      else if name = js ''Drop'' then op_DropX m
      else if name = js ''Swap'' then op_SwapX m
      else if name = js ''Cat'' then op_CatX m
      else if name = js ''Abs'' then op_AbsX m
      else if name = js ''App'' then op_AppX m
      else if name = js ''Inl'' then op_InlX m
      else if name = js ''Inr'' then op_InrX m
      else if name = js ''Pair'' then op_PairX m
      else if name = js ''Shift'' then op_ShiftX m
      else if name = js ''Reset'' then op_ResetX m
      else if name = js ''Define'' then op_DefineX m
      else if name = js ''Delete'' then op_DeleteX m
      else Inr m)"

text \<open>
  One round of the loop of \<open>evaluate\<close> in \<open>script.ts\<close>: the values of the four new
  classes of data go to the data like a Quote, and the three instructions have a
  branch each.
\<close>

definition iterationX :: "('g::{zero,one,minus}) MachineX \<Rightarrow> errorX + 'g MachineX" where
  "iterationX m0 =
     (let m = m0\<lparr>gasX := gasX m0 - 1\<rparr> in
      bind_eX (getCodeX m 0) (\<lambda>hand.
        case hand of
          CatenateX k children \<Rightarrow>
            bind_eX (popCodeX m 1) (\<lambda>m1. Inr (pushCode_arrayX m1 k children))
        | VariableX name \<Rightarrow>
            (case dictionaryX m of
               None \<Rightarrow> Inr ((thunkX m)\<lparr>gasX := 0\<rparr>)
             | Some d \<Rightarrow>
                 (case d name of
                    None \<Rightarrow> Inr ((thunkX m)\<lparr>gasX := 0\<rparr>)
                  | Some binding \<Rightarrow>
                      bind_eX (popCodeX m 1) (\<lambda>m1. Inr (pushCodeX m1 binding))))
        | QuoteX b \<Rightarrow> bind_eX (popCodeX m 1) (\<lambda>m1. Inr (pushDataX m1 hand))
        | InlX e \<Rightarrow> bind_eX (popCodeX m 1) (\<lambda>m1. Inr (pushDataX m1 hand))
        | InrX e \<Rightarrow> bind_eX (popCodeX m 1) (\<lambda>m1. Inr (pushDataX m1 hand))
        | PairX fst_v snd_v \<Rightarrow> bind_eX (popCodeX m 1) (\<lambda>m1. Inr (pushDataX m1 hand))
        | UnitX \<Rightarrow> bind_eX (popCodeX m 1) (\<lambda>m1. Inr (pushDataX m1 hand))
        | TextX s \<Rightarrow> bind_eX (popCodeX m 1) (\<lambda>m1. Inr (pushDataX m1 hand))
        | PromptX s \<Rightarrow> Inr ((thunkX m)\<lparr>gasX := 0\<rparr>)
        | RunInlX e \<Rightarrow> op_RunInlX e m
        | RunInrX e \<Rightarrow> op_RunInrX e m
        | RunPairX fst_v snd_v \<Rightarrow> op_RunPairX fst_v snd_v m
        | ConstantX name \<Rightarrow> combinatorX name m
        | IdX \<Rightarrow> Inl (UnknownX hand)))"

text \<open>A round that returns leaves the gas one lower, or sets it to 0.\<close>

definition gas_okX :: "('g::zero) \<Rightarrow> errorX + 'g MachineX \<Rightarrow> bool" where
  "gas_okX g r = (case r of Inl e \<Rightarrow> True | Inr m' \<Rightarrow> gasX m' = g \<or> gasX m' = 0)"

lemma gas_okX_simps [simp]:
  "gas_okX g (Inl e)" "gas_okX g (Inr m') \<longleftrightarrow> gasX m' = g \<or> gasX m' = 0"
  by (simp_all add: gas_okX_def)

lemma gasX_thunkX [simp]: "gasX (thunkX m) = gasX m"
  by (simp add: thunkX_def Let_def)
lemma gasX_pushDataX [simp]: "gasX (pushDataX m v) = gasX m"
  by (simp add: pushDataX_def)
lemma gasX_pushCodeX [simp]: "gasX (pushCodeX m v) = gasX m"
  by (simp add: pushCodeX_def)
lemma gasX_pushCode_arrayX [simp]: "gasX (pushCode_arrayX m k cs) = gasX m"
  by (simp add: pushCode_arrayX_def reverse_in_placeX_def Let_def)

lemma gas_okX_popCodeX:
  "(\<And>m1. gasX m1 = gasX m \<Longrightarrow> gas_okX g (f m1)) \<Longrightarrow> gas_okX g (bind_eX (popCodeX m n) f)"
  by (simp add: bind_eX_def popCodeX_def)
lemma gas_okX_popDataX:
  "(\<And>m1. gasX m1 = gasX m \<Longrightarrow> gas_okX g (f m1)) \<Longrightarrow> gas_okX g (bind_eX (popDataX m n) f)"
  by (simp add: bind_eX_def popDataX_def)
lemma gas_okX_popDataX':
  "gasX m1 = g \<Longrightarrow> gas_okX g (popDataX m1 n)"
  by (simp add: popDataX_def)

lemmas gas_okX_pops = gas_okX_popCodeX gas_okX_popDataX

lemma gas_op_CopyX: "gas_okX (gasX m) (op_CopyX m)"
  by (auto simp: op_CopyX_def split: sum.split prod.split intro!: gas_okX_pops)
lemma gas_op_DropX: "gas_okX (gasX m) (op_DropX m)"
  by (auto simp: op_DropX_def gas_okX_popDataX' split: sum.split prod.split intro!: gas_okX_pops)
lemma gas_op_SwapX: "gas_okX (gasX m) (op_SwapX m)"
  by (auto simp: op_SwapX_def split: sum.split prod.split intro!: gas_okX_pops)
lemma gas_op_CatX: "gas_okX (gasX m) (op_CatX m)"
  by (auto simp: op_CatX_def split: sum.split prod.split intro!: gas_okX_pops)
lemma gas_op_AbsX: "gas_okX (gasX m) (op_AbsX m)"
  by (auto simp: op_AbsX_def split: sum.split prod.split intro!: gas_okX_pops)
lemma gas_op_AppX: "gas_okX (gasX m) (op_AppX m)"
  by (auto simp: op_AppX_def split: sum.split prod.split intro!: gas_okX_pops)
lemma gas_op_InlX: "gas_okX (gasX m) (op_InlX m)"
  by (auto simp: op_InlX_def split: sum.split prod.split intro!: gas_okX_pops)
lemma gas_op_InrX: "gas_okX (gasX m) (op_InrX m)"
  by (auto simp: op_InrX_def split: sum.split prod.split intro!: gas_okX_pops)
lemma gas_op_PairX: "gas_okX (gasX m) (op_PairX m)"
  by (auto simp: op_PairX_def split: sum.split prod.split intro!: gas_okX_pops)
lemma gas_op_ShiftX: "gas_okX (gasX m) (op_ShiftX m)"
  by (auto simp: op_ShiftX_def popCodeX_def popDataX_def split: sum.split prod.split)
lemma gas_op_ResetX: "gas_okX (gasX m) (op_ResetX m)"
  by (simp add: op_ResetX_def)
lemma gas_op_DefineX: "gas_okX (gasX m) (op_DefineX m)"
  by (auto simp: op_DefineX_def split: sum.split prod.split option.split intro!: gas_okX_pops)
lemma gas_op_DeleteX: "gas_okX (gasX m) (op_DeleteX m)"
  by (auto simp: op_DeleteX_def split: sum.split prod.split option.split intro!: gas_okX_pops)
lemma gas_op_RunInlX: "gas_okX (gasX m) (op_RunInlX e m)"
  by (auto simp: op_RunInlX_def split: sum.split prod.split intro!: gas_okX_pops)
lemma gas_op_RunInrX: "gas_okX (gasX m) (op_RunInrX e m)"
  by (auto simp: op_RunInrX_def split: sum.split prod.split intro!: gas_okX_pops)
lemma gas_op_RunPairX: "gas_okX (gasX m) (op_RunPairX fst_v snd_v m)"
  by (auto simp: op_RunPairX_def intro!: gas_okX_pops)

lemmas gas_opsX = gas_op_CopyX gas_op_DropX gas_op_SwapX gas_op_CatX gas_op_AbsX gas_op_AppX
  gas_op_InlX gas_op_InrX gas_op_PairX gas_op_ShiftX gas_op_ResetX gas_op_DefineX
  gas_op_DeleteX

lemma gas_combinatorX: "gas_okX (gasX m) (combinatorX name m)"
  by (simp add: combinatorX_def gas_opsX)

lemma gas_iterationX: "gas_okX (gasX m - 1) (iterationX m)"
proof -
  let ?m = "m\<lparr>gasX := gasX m - 1\<rparr>"
  have c: "gas_okX (gasX m - 1) (combinatorX name ?m)" for name
    using gas_combinatorX [of ?m name] by simp
  have l: "gas_okX (gasX m - 1) (op_RunInlX e ?m)" for e
    using gas_op_RunInlX [of ?m e] by simp
  have r: "gas_okX (gasX m - 1) (op_RunInrX e ?m)" for e
    using gas_op_RunInrX [of ?m e] by simp
  have p: "gas_okX (gasX m - 1) (op_RunPairX a b ?m)" for a b
    using gas_op_RunPairX [of ?m a b] by simp
  show ?thesis
  proof (cases "getCodeX ?m 0")
    case (Inl e)
    then show ?thesis by (simp add: iterationX_def Let_def bind_eX_def)
  next
    case (Inr hand)
    then have "iterationX m = (case hand of
          CatenateX k children \<Rightarrow>
            bind_eX (popCodeX ?m 1) (\<lambda>m1. Inr (pushCode_arrayX m1 k children))
        | VariableX name \<Rightarrow>
            (case dictionaryX ?m of
               None \<Rightarrow> Inr ((thunkX ?m)\<lparr>gasX := 0\<rparr>)
             | Some d \<Rightarrow>
                 (case d name of
                    None \<Rightarrow> Inr ((thunkX ?m)\<lparr>gasX := 0\<rparr>)
                  | Some binding \<Rightarrow>
                      bind_eX (popCodeX ?m 1) (\<lambda>m1. Inr (pushCodeX m1 binding))))
        | QuoteX b \<Rightarrow> bind_eX (popCodeX ?m 1) (\<lambda>m1. Inr (pushDataX m1 hand))
        | InlX e \<Rightarrow> bind_eX (popCodeX ?m 1) (\<lambda>m1. Inr (pushDataX m1 hand))
        | InrX e \<Rightarrow> bind_eX (popCodeX ?m 1) (\<lambda>m1. Inr (pushDataX m1 hand))
        | PairX fst_v snd_v \<Rightarrow> bind_eX (popCodeX ?m 1) (\<lambda>m1. Inr (pushDataX m1 hand))
        | UnitX \<Rightarrow> bind_eX (popCodeX ?m 1) (\<lambda>m1. Inr (pushDataX m1 hand))
        | TextX s \<Rightarrow> bind_eX (popCodeX ?m 1) (\<lambda>m1. Inr (pushDataX m1 hand))
        | PromptX s \<Rightarrow> Inr ((thunkX ?m)\<lparr>gasX := 0\<rparr>)
        | RunInlX e \<Rightarrow> op_RunInlX e ?m
        | RunInrX e \<Rightarrow> op_RunInrX e ?m
        | RunPairX fst_v snd_v \<Rightarrow> op_RunPairX fst_v snd_v ?m
        | ConstantX name \<Rightarrow> combinatorX name ?m
        | IdX \<Rightarrow> Inl (UnknownX hand))"
      by (simp add: iterationX_def Let_def bind_eX_def)
    then show ?thesis
      by (cases hand) (auto simp: c l r p split: option.split intro!: gas_okX_pops)
  qed
qed

text \<open>The loop, \<open>evaluate\<close> and \<open>toString\<close> of the result, as above.\<close>

function runX :: "int MachineX \<Rightarrow> nat \<Rightarrow> (errorX + int MachineX) \<times> nat" where
  "runX m n =
     (if length (codeX m) > 0 \<and> gasX m > 0 then
        (case iterationX m of
           Inl e \<Rightarrow> (Inl e, Suc n)
         | Inr m' \<Rightarrow> runX m' (Suc n))
      else (Inr m, n))"
  by pat_completeness auto
termination
proof (relation "measure (\<lambda>(m, n). nat (gasX m))")
  fix m :: "int MachineX" and n :: nat and m' :: "int MachineX"
  assume "0 < length (codeX m) \<and> 0 < gasX m" and "iterationX m = Inr m'"
  with gas_iterationX [of m] show "((m', Suc n), m, n) \<in> measure (\<lambda>(m, n). nat (gasX m))"
    by auto
qed simp

declare runX.simps [simp del]

definition initialX :: "ValueX \<Rightarrow> DictionaryX option \<Rightarrow> 'g \<Rightarrow> nat \<Rightarrow> 'g MachineX" where
  "initialX init d g k =
     \<lparr>codeX = [init], dataX = [], sinkX = [], dictionaryX = d, gasX = g, freshX = k\<rparr>"

definition residualX :: "'g MachineX \<Rightarrow> ValueX" where
  "residualX m = catenateX (freshX m) (sinkX m @ dataX m @ rev (codeX m))"

definition evaluateX :: "ValueX \<Rightarrow> DictionaryX option \<Rightarrow> int \<Rightarrow> nat \<Rightarrow> errorX + ValueX" where
  "evaluateX init d g k =
     (case fst (runX (initialX init d g k) 0) of
        Inl e \<Rightarrow> Inl e
      | Inr m \<Rightarrow> Inr (residualX m))"

definition evaluate_sourceX ::
  "jsstring \<Rightarrow> DictionaryX option \<Rightarrow> int \<Rightarrow> nat \<Rightarrow> errorX + ValueX" where
  "evaluate_sourceX src d g k =
     (case readX src k of
        Inl e \<Rightarrow> Inl e
      | Inr (init, k') \<Rightarrow> evaluateX init d g k')"

definition renderX :: "errorX + ValueX \<Rightarrow> errorX + jsstring" where
  "renderX r = (case r of Inl e \<Rightarrow> Inl e | Inr v \<Rightarrow> Inr (toStringX v))"

section \<open>Vocabulary of the properties\<close>

text \<open>
  The names of the \<open>case\<close>s of the \<open>switch\<close> in \<open>evaluate\<close>; \<open>arg i st\<close>, the value
  \<open>i\<close> places below the top of the data (the value \<open>getData(i)\<close> returns when there is
  one); and whether the getters \<open>body\<close> and \<open>text\<close> of a value return.
\<close>

definition combinator_names :: "jsstring list" where
  "combinator_names =
     map js [''Copy'', ''Drop'', ''Swap'', ''Cat'', ''Abs'', ''App'', ''Inl'', ''Inr'',
             ''Pair'', ''Shift'', ''Reset'', ''Define'', ''Delete'']"

definition arg :: "nat \<Rightarrow> 'a State_scheme \<Rightarrow> Value" where
  "arg i st = data st ! (length (data st) - 1 - i)"

fun hasBody :: "Value \<Rightarrow> bool" where
  "hasBody (Quote b) = True"
| "hasBody v = False"

fun hasText :: "Value \<Rightarrow> bool" where
  "hasText (Text s) = True"
| "hasText v = False"

text \<open>
  The values that \<open>read\<close> builds. A token is a Constant or a Variable whose name the
  regular expression of \<open>read\<close> accepts, a Text without the double quote, a Prompt
  without the closing brace, or a Quote of a program; a program is Id or a Catenate
  of one token or more. \<open>printed ts\<close> is the text of a Catenate of \<open>ts\<close>, and
  \<open>reads_back ts src\<close> says that \<open>read\<close>, with \<open>src\<close> before it and the end of the source
  or a separator after, appends values of the shapes of \<open>ts\<close> to the list it builds.
\<close>

fun token :: "Value \<Rightarrow> bool" where
  "token (Constant name) = (name \<noteq> [] \<and> isUpper (hd name) \<and> list_all isNameChar (tl name))"
| "token (Variable name) = (name \<noteq> [] \<and> isLower (hd name) \<and> list_all isNameChar (tl name))"
| "token (Text s) = list_all (\<lambda>x. x \<noteq> of_char (CHR 0x22)) s"
| "token (Prompt s) = list_all (\<lambda>x. x \<noteq> of_char CHR ''}'') s"
| "token (Quote IdV) = True"
| "token (Quote (Catenate k children)) = (children \<noteq> [] \<and> list_all token children)"
| "token v = False"

fun program :: "Value \<Rightarrow> bool" where
  "program IdV = True"
| "program (Catenate k children) = (children \<noteq> [] \<and> list_all token children)"
| "program v = False"

definition printed :: "Value list \<Rightarrow> jsstring" where
  "printed ts = join (js '' '') (map toString ts)"

definition reads_back :: "Value list \<Rightarrow> jsstring \<Rightarrow> bool" where
  "reads_back ts src \<longleftrightarrow>
     (\<forall>rest k. rest = [] \<or> isSeparator (hd rest) \<longrightarrow>
        (\<exists>ts' k'. map shape ts' = map shape ts \<and> list_all token ts' \<and>
           (\<forall>build stack.
              read_loop (src @ rest) build stack k = read_loop rest (build @ ts') stack k')))"

section \<open>Evaluation of the definitions\<close>

lemmas state_defs = getData_def popData_def pushData_def getCode_def popCode_def
  pushCode_def thunk_def numCode_def

lemmas op_defs = op_Copy_def op_Drop_def op_Swap_def op_Cat_def op_Abs_def op_App_def
  op_Inl_def op_Inr_def op_Pair_def op_Shift_def op_Reset_def op_Define_def op_Delete_def

lemmas class_defs = isSpace_def isSeparator_def isUpper_def isLower_def isDigit_def
  isNameChar_def

lemmas eval_defs = evaluate_source_def read_def read_loop.simps evaluate_def
  evaluate_iterations_def
  initial_def residual_def run.simps iteration_def combinator_def
  op_defs state_defs bind_e_def pushCode_array_def reverse_in_place_def catenate_def
  shift_scan.simps js_def render_def class_defs

text \<open>
  The test cases of the interpreter (\<open>read\<close>, then \<open>evaluate\<close> with no dictionary and
  the default gas, then \<open>toString\<close>) give the expected texts.
\<close>

lemma test_cases:
  \<open>render (evaluate_source (js ''[foo] Copy'') None 1000000 k) = Inr (js ''[foo] [foo]'')\<close>
  \<open>render (evaluate_source (js ''[foo] Drop'') None 1000000 k) = Inr (js '''')\<close>
  \<open>render (evaluate_source (js ''[foo] [bar] Swap'') None 1000000 k) = Inr (js ''[bar] [foo]'')\<close>
  \<open>render (evaluate_source (js ''[foo] [bar] Cat'') None 1000000 k) = Inr (js ''[foo bar]'')\<close>
  \<open>render (evaluate_source (js ''[foo] Abs'') None 1000000 k) = Inr (js ''[[foo]]'')\<close>
  \<open>render (evaluate_source (js ''[foo] App'') None 1000000 k) = Inr (js ''foo'')\<close>
  \<open>render (evaluate_source (js ''[inl] [inr] [value] Inl'') None 1000000 k) = Inr (js ''[value] inl'')\<close>
  \<open>render (evaluate_source (js ''[inl] [inr] [value] Inr'') None 1000000 k) = Inr (js ''[value] inr'')\<close>
  \<open>render (evaluate_source (js ''[fst] [snd] Pair'') None 1000000 k) = Inr (js ''[[fst] [snd]]'')\<close>
  \<open>render (evaluate_source (js ''"Hello" "world" Swap'') None 1000000 k) = Inr (js ''"world" "Hello"'')\<close>
  \<open>render (evaluate_source (js ''{ Hello, world. }'') None 1000000 k) = Inr (js ''{ Hello, world. }'')\<close>
  \<open>render (evaluate_source (js ''[handler] Shift body0 body1 body2 Reset'') None 1000000 k)
     = Inr (js ''[body0 body1 body2] handler'')\<close>
  by (simp_all add: eval_defs Let_def cong: sum.case_cong_weak)

text \<open>
  The same for the extended variant: the test cases of \<open>dovetale/script_test.ts\<close>.
\<close>

lemmas state_defsX = getDataX_def popDataX_def pushDataX_def getCodeX_def popCodeX_def
  pushCodeX_def thunkX_def numCodeX_def

lemmas op_defsX = op_CopyX_def op_DropX_def op_SwapX_def op_CatX_def op_AbsX_def
  op_AppX_def op_InlX_def op_InrX_def op_PairX_def op_ShiftX_def op_ResetX_def
  op_DefineX_def op_DeleteX_def op_RunInlX_def op_RunInrX_def op_RunPairX_def

lemmas eval_defsX = evaluate_sourceX_def readX_def read_loopX.simps evaluateX_def
  initialX_def residualX_def runX.simps iterationX_def combinatorX_def
  op_defsX state_defsX bind_eX_def pushCode_arrayX_def reverse_in_placeX_def catenateX_def
  shift_scanX.simps js_def renderX_def class_defs

lemma test_casesX:
  \<open>renderX (evaluate_sourceX (js ''[foo] Copy'') None 1000000 k) = Inr (js ''[foo] [foo]'')\<close>
  \<open>renderX (evaluate_sourceX (js ''[foo] Drop'') None 1000000 k) = Inr (js '''')\<close>
  \<open>renderX (evaluate_sourceX (js ''[foo] [bar] Swap'') None 1000000 k) = Inr (js ''[bar] [foo]'')\<close>
  \<open>renderX (evaluate_sourceX (js ''[foo] [bar] Cat'') None 1000000 k) = Inr (js ''[foo bar]'')\<close>
  \<open>renderX (evaluate_sourceX (js ''[foo] Abs'') None 1000000 k) = Inr (js ''[[foo]]'')\<close>
  \<open>renderX (evaluate_sourceX (js ''[foo] App'') None 1000000 k) = Inr (js ''foo'')\<close>
  \<open>renderX (evaluate_sourceX (js ''[inl] [inr] [value] Inl App'') None 1000000 k)
     = Inr (js ''[value] inl'')\<close>
  \<open>renderX (evaluate_sourceX (js ''[inl] [inr] [value] Inr App'') None 1000000 k)
     = Inr (js ''[value] inr'')\<close>
  \<open>renderX (evaluate_sourceX (js ''[fst] [snd] Pair App'') None 1000000 k) = Inr (js ''[fst] [snd]'')\<close>
  \<open>renderX (evaluate_sourceX (js ''"Hello" "world" Swap'') None 1000000 k)
     = Inr (js ''"world" "Hello"'')\<close>
  \<open>renderX (evaluate_sourceX (js ''{ Hello, world. }'') None 1000000 k)
     = Inr (js ''{ Hello, world. }'')\<close>
  \<open>renderX (evaluate_sourceX (js ''[handler] Shift body0 body1 body2 Reset'') None 1000000 k)
     = Inr (js ''[body0 body1 body2] handler'')\<close>
  by (simp_all add: eval_defsX Let_def cong: sum.case_cong_weak)

section \<open>The constructor \<open>catenate\<close>\<close>

lemma foldl_spliced:
  "foldl (\<lambda>buf v. buf @ spliced v) acc vs = acc @ concat (map spliced vs)"
  by (induction vs arbitrary: acc) simp_all

lemma spliced_case:
  "spliced v = (case v of IdV \<Rightarrow> [] | Catenate j children \<Rightarrow> children | _ \<Rightarrow> [v])"
  by (cases v) simp_all

lemma buf_cases:
  "(if length buf = 0 then IdV else Catenate k buf) =
     (case buf of [] \<Rightarrow> IdV | x # xs \<Rightarrow> Catenate k (x # xs))"
  by (cases buf) simp_all

lemma catenate_concat:
  "catenate k vs =
     (case concat (map spliced vs) of [] \<Rightarrow> IdV | x # xs \<Rightarrow> Catenate k (x # xs))"
  unfolding catenate_def Let_def foldl_spliced append_Nil by (rule buf_cases)

text \<open>
  C6, as the specification states it, fails: when exactly one element remains,
  \<open>catenate\<close> does not return that element but a Catenate with this single child.
\<close>

theorem catenate_single_counterexample:
  "catenate 0 [Text (js ''a'')] = Catenate 0 [Text (js ''a'')]
   \<and> catenate 0 [Text (js ''a'')] \<noteq> Text (js ''a'')"
  by (simp add: catenate_def)

text \<open>
  C6, amended. For every argument list, \<open>catenate\<close> splices the children of every
  Catenate argument and drops every Id argument; if no element remains it returns
  Id, and otherwise it returns a Catenate of the remaining elements, also when
  exactly one remains. The Catenate of a single argument prints as that argument.
\<close>

theorem catenate_splices:
  "catenate k vs =
     (case concat (map (\<lambda>v. case v of IdV \<Rightarrow> [] | Catenate j children \<Rightarrow> children | _ \<Rightarrow> [v])
                     vs) of
        [] \<Rightarrow> IdV
      | x # xs \<Rightarrow> Catenate k (x # xs))
   \<and> toString (catenate k [v]) = toString v"
proof -
  have "(\<lambda>v. case v of IdV \<Rightarrow> [] | Catenate j children \<Rightarrow> children | _ \<Rightarrow> [v]) = spliced"
    by (rule ext) (simp add: spliced_case)
  moreover have "toString (catenate k [v]) = toString v"
    by (cases v) (simp_all add: catenate_def)
  ultimately show ?thesis
    using catenate_concat [of k vs] by simp
qed

section \<open>The branch combinator \<open>Inl\<close>\<close>

text \<open>
  The two variants differ on \<open>Inl\<close>. In the minimal one (\<open>part_003\<close>) the combinator
  itself takes the left of two quoted branches: with \<open>[l] [r] a\<close> on the data, one
  round leaves \<open>a\<close> there and pushes \<open>l\<close> onto the code.
\<close>

lemma Inl_fires:
  assumes "code m = cs @ [Constant (js ''Inl'')]" and "data m = ds @ [Quote l, Quote r, a]"
  shows "iteration m = Inr (m\<lparr>gas := gas m - 1, code := cs @ [l], data := ds @ [a]\<rparr>)"
  using assms
  by (simp add: iteration_def Let_def combinator_def op_Inl_def state_defs bind_e_def js_def
      nth_append)

text \<open>
  In the extended one (\<open>dovetale/script.ts\<close>) three rounds do it. \<open>Inl\<close> wraps the
  value on top of the data; \<open>App\<close> takes the body of the value on top of the data,
  which for a wrapped value is the instruction \<open>RunInl\<close>, onto the code; and \<open>RunInl\<close>
  takes the bodies of the two values on top of the data, pushes the left one onto
  the code and the value it carries onto the data.
\<close>

lemma InlX_fires:
  assumes "codeX m = cs @ [ConstantX (js ''Inl'')]" and "dataX m = ds @ [a]"
  shows "iterationX m = Inr (m\<lparr>gasX := gasX m - 1, codeX := cs, dataX := ds @ [InlX a]\<rparr>)"
  using assms
  by (simp add: iterationX_def Let_def combinatorX_def op_InlX_def state_defsX bind_eX_def js_def)

lemma AppX_fires:
  assumes "codeX m = cs @ [ConstantX (js ''App'')]" and "dataX m = ds @ [v]"
    and "bodyX v = Inr b"
  shows "iterationX m = Inr (m\<lparr>gasX := gasX m - 1, codeX := cs @ [b], dataX := ds\<rparr>)"
  using assms
  by (simp add: iterationX_def Let_def combinatorX_def op_AppX_def state_defsX bind_eX_def js_def)

lemma RunInlX_fires:
  assumes "codeX m = cs @ [RunInlX a]" and "dataX m = ds @ [vl, vr]"
    and "bodyX vl = Inr l" and "bodyX vr = Inr r"
  shows "iterationX m = Inr (m\<lparr>gasX := gasX m - 1, codeX := cs @ [l], dataX := ds @ [a]\<rparr>)"
  using assms
  by (simp add: iterationX_def Let_def op_RunInlX_def state_defsX bind_eX_def nth_append)

text \<open>
  C7, as the specification states it, fails of the minimal variant, whose \<open>Inl\<close>
  it describes: with no dictionary, the program \<open>[inl] [inr] [value] Inl App\<close> does
  not render \<open>[value] inl\<close> there.
\<close>

theorem inl_app_counterexample:
  "render (evaluate_source (js ''[inl] [inr] [value] Inl App'') None 1000000 0)
     \<noteq> Inr (js ''[value] inl'')"
  by (simp add: eval_defs cong: sum.case_cong_weak)

text \<open>
  C7, amended, variant by variant. In the minimal variant \<open>Inl\<close> selects the left
  branch: on any machine with \<open>Inl\<close> on top of the code and \<open>[l] [r] a\<close> on top of the
  data, one round pushes \<open>l\<close> onto the code, discards \<open>[r]\<close> and leaves \<open>a\<close>; with no
  dictionary \<open>[inl] [inr] [value] Inl\<close> renders \<open>[value] inl\<close>, and
  \<open>[inl] [inr] [value] Inl App\<close> renders \<open>[value] inl App\<close>, since the unresolved
  variable \<open>inl\<close> stops the reduction before \<open>App\<close>. In the extended variant, which
  the test runs, \<open>Inl\<close> wraps the value \<open>a\<close> on top of the data, \<open>App\<close> on a wrapped value
  pushes the instruction \<open>RunInl\<close> of \<open>a\<close> onto the code, and \<open>RunInl\<close> on two values
  with the bodies \<open>l\<close> and \<open>r\<close> pushes \<open>l\<close> onto the code, discards the right one and
  leaves \<open>a\<close>; with no dictionary \<open>[inl] [inr] [value] Inl App\<close> renders
  \<open>[value] inl\<close> there.
\<close>

theorem inl_selects_left:
  "(code m = cs @ [Constant (js ''Inl'')] \<and> data m = ds @ [Quote l, Quote r, a]
      \<longrightarrow> iteration m = Inr (m\<lparr>gas := gas m - 1, code := cs @ [l], data := ds @ [a]\<rparr>))
   \<and> render (evaluate_source (js ''[inl] [inr] [value] Inl'') None 1000000 k)
       = Inr (js ''[value] inl'')
   \<and> render (evaluate_source (js ''[inl] [inr] [value] Inl App'') None 1000000 k)
       = Inr (js ''[value] inl App'')
   \<and> (codeX mx = csx @ [ConstantX (js ''Inl'')] \<and> dataX mx = dsx @ [ax]
      \<longrightarrow> iterationX mx
          = Inr (mx\<lparr>gasX := gasX mx - 1, codeX := csx, dataX := dsx @ [InlX ax]\<rparr>))
   \<and> (codeX mx = csx @ [ConstantX (js ''App'')] \<and> dataX mx = dsx @ [InlX ax]
      \<longrightarrow> iterationX mx
          = Inr (mx\<lparr>gasX := gasX mx - 1, codeX := csx @ [RunInlX ax], dataX := dsx\<rparr>))
   \<and> (codeX mx = csx @ [RunInlX ax] \<and> dataX mx = dsx @ [vl, vr]
        \<and> bodyX vl = Inr lx \<and> bodyX vr = Inr rx
      \<longrightarrow> iterationX mx
          = Inr (mx\<lparr>gasX := gasX mx - 1, codeX := csx @ [lx], dataX := dsx @ [ax]\<rparr>))
   \<and> renderX (evaluate_sourceX (js ''[inl] [inr] [value] Inl App'') None 1000000 k)
       = Inr (js ''[value] inl'')"
proof (intro conjI impI)
  show "render (evaluate_source (js ''[inl] [inr] [value] Inl'') None 1000000 k)
       = Inr (js ''[value] inl'')"
    by (simp add: eval_defs cong: sum.case_cong_weak)
  show "render (evaluate_source (js ''[inl] [inr] [value] Inl App'') None 1000000 k)
       = Inr (js ''[value] inl App'')"
    by (simp add: eval_defs cong: sum.case_cong_weak)
  show "renderX (evaluate_sourceX (js ''[inl] [inr] [value] Inl App'') None 1000000 k)
       = Inr (js ''[value] inl'')"
    by (simp add: eval_defsX Let_def cong: sum.case_cong_weak)
qed (auto simp: Inl_fires InlX_fires AppX_fires RunInlX_fires)

theorem inl_selects_left_witness:
  "iteration \<lparr>code = [Constant (js ''App''), Constant (js ''Inl'')],
        data = [Quote (Variable (js ''inl'')), Quote (Variable (js ''inr'')),
                Quote (Variable (js ''value''))],
        sink = [], dictionary = None, gas = (5::int), fresh = 0\<rparr>
     = Inr \<lparr>code = [Constant (js ''App''), Variable (js ''inl'')],
        data = [Quote (Variable (js ''value''))],
        sink = [], dictionary = None, gas = (4::int), fresh = 0\<rparr>
   \<and> iterationX \<lparr>codeX = [ConstantX (js ''App''), ConstantX (js ''Inl'')],
        dataX = [QuoteX (VariableX (js ''inl'')), QuoteX (VariableX (js ''inr'')),
                 QuoteX (VariableX (js ''value''))],
        sinkX = [], dictionaryX = None, gasX = (5::int), freshX = 0\<rparr>
     = Inr \<lparr>codeX = [ConstantX (js ''App'')],
        dataX = [QuoteX (VariableX (js ''inl'')), QuoteX (VariableX (js ''inr'')),
                 InlX (QuoteX (VariableX (js ''value'')))],
        sinkX = [], dictionaryX = None, gasX = (4::int), freshX = 0\<rparr>
   \<and> iterationX \<lparr>codeX = [ConstantX (js ''App'')],
        dataX = [QuoteX (VariableX (js ''inl'')), QuoteX (VariableX (js ''inr'')),
                 InlX (QuoteX (VariableX (js ''value'')))],
        sinkX = [], dictionaryX = None, gasX = (4::int), freshX = 0\<rparr>
     = Inr \<lparr>codeX = [RunInlX (QuoteX (VariableX (js ''value'')))],
        dataX = [QuoteX (VariableX (js ''inl'')), QuoteX (VariableX (js ''inr''))],
        sinkX = [], dictionaryX = None, gasX = (3::int), freshX = 0\<rparr>
   \<and> iterationX \<lparr>codeX = [RunInlX (QuoteX (VariableX (js ''value'')))],
        dataX = [QuoteX (VariableX (js ''inl'')), QuoteX (VariableX (js ''inr''))],
        sinkX = [], dictionaryX = None, gasX = (3::int), freshX = 0\<rparr>
     = Inr \<lparr>codeX = [VariableX (js ''inl'')],
        dataX = [QuoteX (VariableX (js ''value''))],
        sinkX = [], dictionaryX = None, gasX = (2::int), freshX = 0\<rparr>"
  apply (intro conjI)
  subgoal
    using inl_selects_left [where m = "\<lparr>code = [Constant (js ''App''), Constant (js ''Inl'')],
        data = [Quote (Variable (js ''inl'')), Quote (Variable (js ''inr'')),
                Quote (Variable (js ''value''))],
        sink = [], dictionary = None, gas = (5::int), fresh = 0\<rparr>"
      and cs = "[Constant (js ''App'')]" and ds = "[]" and l = "Variable (js ''inl'')"
      and r = "Variable (js ''inr'')" and a = "Quote (Variable (js ''value''))",
      THEN conjunct1]
    by simp
  subgoal
    using inl_selects_left [where mx = "\<lparr>codeX = [ConstantX (js ''App''), ConstantX (js ''Inl'')],
        dataX = [QuoteX (VariableX (js ''inl'')), QuoteX (VariableX (js ''inr'')),
                 QuoteX (VariableX (js ''value''))],
        sinkX = [], dictionaryX = None, gasX = (5::int), freshX = 0\<rparr>"
      and csx = "[ConstantX (js ''App'')]"
      and dsx = "[QuoteX (VariableX (js ''inl'')), QuoteX (VariableX (js ''inr''))]"
      and ax = "QuoteX (VariableX (js ''value''))",
      THEN conjunct2, THEN conjunct2, THEN conjunct2, THEN conjunct1]
    by simp
  subgoal
    using inl_selects_left [where mx = "\<lparr>codeX = [ConstantX (js ''App'')],
        dataX = [QuoteX (VariableX (js ''inl'')), QuoteX (VariableX (js ''inr'')),
                 InlX (QuoteX (VariableX (js ''value'')))],
        sinkX = [], dictionaryX = None, gasX = (4::int), freshX = 0\<rparr>"
      and csx = "[]"
      and dsx = "[QuoteX (VariableX (js ''inl'')), QuoteX (VariableX (js ''inr''))]"
      and ax = "QuoteX (VariableX (js ''value''))",
      THEN conjunct2, THEN conjunct2, THEN conjunct2, THEN conjunct2, THEN conjunct1]
    by simp
  subgoal
    using inl_selects_left [where mx = "\<lparr>codeX = [RunInlX (QuoteX (VariableX (js ''value'')))],
        dataX = [QuoteX (VariableX (js ''inl'')), QuoteX (VariableX (js ''inr''))],
        sinkX = [], dictionaryX = None, gasX = (3::int), freshX = 0\<rparr>"
      and csx = "[]" and dsx = "[]" and ax = "QuoteX (VariableX (js ''value''))"
      and vl = "QuoteX (VariableX (js ''inl''))" and vr = "QuoteX (VariableX (js ''inr''))"
      and lx = "VariableX (js ''inl'')" and rx = "VariableX (js ''inr'')",
      THEN conjunct2, THEN conjunct2, THEN conjunct2, THEN conjunct2, THEN conjunct2, THEN conjunct1]
    by simp
  done

section \<open>Gas\<close>

lemma gas_iteration_le: "iteration m = Inr m' \<Longrightarrow> gas m' = gas m - 1 \<or> gas m' = 0"
  using gas_iteration [of m] by simp

lemma run_count: "snd (run m n) \<le> n + nat (gas m)"
proof (induction m n rule: run.induct)
  case (1 m n)
  show ?case
  proof (cases "0 < length (code m) \<and> 0 < gas m")
    case False
    then show ?thesis by (auto simp: run.simps [of m n])
  next
    case True
    show ?thesis
    proof (cases "iteration m")
      case (Inl e)
      with True show ?thesis by (auto simp: run.simps [of m n])
    next
      case (Inr m')
      from gas_iteration_le [OF Inr] True have "nat (gas m') < nat (gas m)"
        by auto
      moreover from "1.IH" [OF True Inr] have "snd (run m' (Suc n)) \<le> Suc n + nat (gas m')" .
      ultimately show ?thesis
        using True Inr by (auto simp: run.simps [of m n])
    qed
  qed
qed

text \<open>
  With the gas an integer the loop always ends, and \<open>run\<close> is its result.
\<close>

lemma run_gas_int: "run_gas m n = Some (run m n)"
proof (induction m n rule: run.induct)
  case (1 m n)
  show ?case
    by (subst run_gas.simps, subst run.simps) (auto split: sum.split simp: 1)
qed

text \<open>
  Rounding. An integer is its own rounding to an integer; \<open>quantum\<close> is found from
  the two powers of \<open>2\<close> around the number; and every integer from \<open>0\<close> to \<open>2\<close> to the
  \<open>53\<close> is a double, so that \<open>gas--\<close> is exact down from there.
\<close>

lemma round_half_even_int [simp]: "round_half_even (of_int n) = n"
  by (simp add: round_half_even_def)

lemma quantum_binade:
  assumes "2 powr of_int E \<le> \<bar>y\<bar>" "\<bar>y\<bar> < 2 powr of_int (E + 1)" "- 1022 \<le> E"
  shows "quantum y = 2 powr of_int (E - 52)"
proof -
  have "0 < \<bar>y\<bar>" using assms(1) by (rule less_le_trans [rotated]) simp
  then have "\<lfloor>log 2 \<bar>y\<bar>\<rfloor> = E"
    using assms(1,2) by (simp add: floor_log_eq_powr_iff)
  then show ?thesis using assms(3) by (simp add: quantum_def)
qed

lemma round_double_int:
  assumes "0 \<le> j" "j < 2 ^ 53"
  shows "round_double (of_int j) = Finite (of_int j)"
proof (cases "j = 0")
  case True
  then show ?thesis by (simp add: round_double_def)
next
  case False
  with assms have j1: "1 \<le> j" by simp
  define E where "E = \<lfloor>log 2 (of_int j :: real)\<rfloor>"
  have "0 \<le> log 2 (of_int j :: real)" using j1 by simp
  then have E0: "0 \<le> E" by (simp add: E_def)
  have j53: "(of_int j :: real) < 2 ^ 53"
    using assms(2) by (metis of_int_less_iff of_int_numeral of_int_power)
  then have "log 2 (of_int j :: real) < 53"
    using j1 by (simp add: log_less_iff powr_realpow [symmetric])
  then have E52: "E \<le> 52" by (simp add: E_def floor_le_iff)
  define s where "s = nat (52 - E)"
  have q: "quantum (of_int j) = 1 / 2 ^ s"
  proof -
    have "max E (- 1022) - 52 = - int s" using E0 E52 by (simp add: s_def)
    then have "quantum (of_int j) = 2 powr (- real s)"
      using j1 by (simp add: quantum_def E_def [symmetric])
    then show ?thesis by (simp add: powr_minus powr_realpow field_simps)
  qed
  have "of_int j / quantum (of_int j) = (of_int (j * 2 ^ s) :: real)"
    by (simp add: q)
  then have "round_half_even (of_int j / quantum (of_int j)) = j * 2 ^ s"
    by (simp only: round_half_even_int)
  then have r: "of_int (round_half_even (of_int j / quantum (of_int j))) * quantum (of_int j)
      = (of_int j :: real)"
    by (simp add: q)
  have "(of_int j :: real) < 2 ^ 1024" using j53 by (rule less_trans) simp
  moreover have "- (2 ^ 1024) < (of_int j :: real)" using j1 by (simp add: less_le_trans [of _ 0])
  ultimately show ?thesis
    using False by (simp add: round_double_def Let_def r del: of_int_mult)
qed

text \<open>
  Two roundings by hand. \<open>1 / 2 - 1\<close> is the double \<open>- 1 / 2\<close>. And
  \<open>9007199254740996\<close> is \<open>2\<close> to the \<open>53\<close> plus \<open>4\<close>: the doubles around it are \<open>2\<close> apart,
  so one less, \<open>9007199254740995\<close>, lies half way between two doubles, and the tie
  goes back to \<open>9007199254740996\<close>, whose significand is even.
\<close>

lemma round_double_minus_half: "round_double (- (1 / 2)) = Finite (- (1 / 2))"
proof -
  have "quantum (- (1 / 2)) = 2 powr of_int (- 1 - 52)"
    by (rule quantum_binade) (simp_all add: powr_minus)
  then have q: "quantum (- (1 / 2)) = 1 / 2 ^ 53"
    by (simp add: powr_minus powr_realpow [symmetric] field_simps)
  have "- (1 / 2) / quantum (- (1 / 2)) = (of_int (- (2 ^ 52)) :: real)"
    by (simp add: q)
  then have "round_half_even (- (1 / 2) / quantum (- (1 / 2))) = - (2 ^ 52)"
    by (simp only: round_half_even_int)
  then show ?thesis
    by (simp add: round_double_def Let_def q)
qed

lemma round_double_no_op: "round_double 9007199254740995 = Finite 9007199254740996"
proof -
  have "quantum 9007199254740995 = 2 powr of_int (53 - 52)"
    by (rule quantum_binade) (simp_all add: powr_realpow [symmetric])
  then have q: "quantum 9007199254740995 = 2" by simp
  have "(9007199254740995 :: real) / 2 = of_int 4503599627370497 + 1 / 2" by simp
  then have "round_half_even (9007199254740995 / 2) = 4503599627370498"
    unfolding round_half_even_def Let_def by (simp only: floor_add_int) simp
  then show ?thesis
    by (simp add: round_double_def Let_def q)
qed

text \<open>
  From a gas that is an integer \<open>j\<close> of at most \<open>2\<close> to the \<open>53\<close>, the loop on doubles
  ends after at most \<open>j\<close> rounds more.
\<close>

lemma run_gas_bound:
  "gas m = Finite (real j) \<Longrightarrow> j \<le> 2 ^ 53 \<Longrightarrow>
   \<exists>r n'. run_gas m n = Some (r, n') \<and> n' \<le> n + j"
proof (induction j arbitrary: m n rule: less_induct)
  case (less j)
  show ?case
  proof (cases "0 < length (code m) \<and> 0 < gas m")
    case False
    then show ?thesis by (subst run_gas.simps) auto
  next
    case True
    with less.prems(1) have j: "0 < j" by (simp add: less_number_def zero_number_def)
    show ?thesis
    proof (cases "iteration m")
      case (Inl e)
      with True j show ?thesis by (subst run_gas.simps) simp
    next
      case (Inr m')
      have "int j - 1 < 2 ^ 53" using less.prems(2) by simp
      then have "round_double (of_int (int j - 1)) = Finite (of_int (int j - 1))"
        using j by (intro round_double_int) simp_all
      then have "gas m - 1 = Finite (real (j - 1))"
        using j less.prems(1) by (simp add: minus_number_def one_number_def of_nat_diff)
      with gas_iteration [of m] Inr
      have "gas m' = Finite (real (j - 1)) \<or> gas m' = Finite (real 0)"
        by (simp add: zero_number_def)
      then obtain j' where j': "gas m' = Finite (real j')" "j' < j"
        using j by (metis diff_less zero_less_one)
      with less.prems(2) have "j' \<le> 2 ^ 53" by simp
      from less.IH [OF j'(2) j'(1) this, of "Suc n"]
      obtain r n' where "run_gas m' (Suc n) = Some (r, n')" "n' \<le> Suc n + j'" by blast
      with True Inr j'(2) show ?thesis by (subst run_gas.simps) simp
    qed
  qed
qed

text \<open>
  A Constant that is no combinator leaves the machine as it is, but for the gas:
  when \<open>gas--\<close> does not change the gas either, the loop cannot end.
\<close>

lemma iteration_Foo:
  "code m = [Constant (js ''Foo'')] \<Longrightarrow> iteration m = Inr (m\<lparr>gas := gas m - 1\<rparr>)"
  by (simp add: iteration_def Let_def getCode_def numCode_def bind_e_def combinator_def js_def)

lemma run_gas_no_op:
  assumes "run_gas m n = Some y"
  shows "\<not> (code m = [Constant (js ''Foo'')] \<and> gas m = Finite 9007199254740996)"
proof (rule run_gas.raw_induct
    [where P = "\<lambda>m n y. \<not> (code m = [Constant (js ''Foo'')] \<and> gas m = Finite 9007199254740996)",
     OF _ assms])
  fix f :: "number Machine \<Rightarrow> nat \<Rightarrow> ((error + number Machine) \<times> nat) option"
    and m :: "number Machine" and n y
  assume IH: "\<And>m n y. f m n = Some y \<Longrightarrow>
      \<not> (code m = [Constant (js ''Foo'')] \<and> gas m = Finite 9007199254740996)"
    and step: "(if 0 < length (code m) \<and> 0 < gas m then
         (case iteration m of Inl e \<Rightarrow> Some (Inl e, Suc n) | Inr m' \<Rightarrow> f m' (Suc n))
       else Some (Inr m, n)) = Some y"
  show "\<not> (code m = [Constant (js ''Foo'')] \<and> gas m = Finite 9007199254740996)"
  proof
    assume m: "code m = [Constant (js ''Foo'')] \<and> gas m = Finite 9007199254740996"
    then have g: "gas m - 1 = gas m"
      by (simp add: minus_number_def one_number_def round_double_no_op)
    from m have "0 < gas m" by (simp add: less_number_def zero_number_def)
    with m g step have "f (m\<lparr>gas := gas m\<rparr>) (Suc n) = Some y"
      by (simp add: iteration_Foo)
    from IH [OF this] m show False by simp
  qed
qed

text \<open>
  The integers and the doubles. A round of the loop does not look at the gas but to
  lower it by one and to set it to 0, so it commutes with every reading \<open>f\<close> of the
  gas that keeps 0 and, at the gas of the machine, the subtraction of 1. The
  reading of an integer as a double does so up to \<open>2\<close> to the \<open>53\<close>: from there down,
  \<open>evaluate\<close> with the gas a double is \<open>evaluate\<close> with the gas an integer, round
  for round.
\<close>

lemma lift_gas_simps [simp]:
  "lift_gas f (Inl e) = Inl e" "lift_gas f (Inr m) = Inr (with_gas f m)"
  by (simp_all add: lift_gas_def)

lemma with_gas_sel [simp]:
  "code (with_gas f m) = code m" "data (with_gas f m) = data m" "sink (with_gas f m) = sink m"
  "dictionary (with_gas f m) = dictionary m" "gas (with_gas f m) = f (gas m)"
  "fresh (with_gas f m) = fresh m"
  by (simp_all add: with_gas_def)

lemma with_gas_upd [simp]:
  "(with_gas f m)\<lparr>code := c\<rparr> = with_gas f (m\<lparr>code := c\<rparr>)"
  "(with_gas f m)\<lparr>data := d\<rparr> = with_gas f (m\<lparr>data := d\<rparr>)"
  "(with_gas f m)\<lparr>sink := s\<rparr> = with_gas f (m\<lparr>sink := s\<rparr>)"
  "(with_gas f m)\<lparr>dictionary := dd\<rparr> = with_gas f (m\<lparr>dictionary := dd\<rparr>)"
  "(with_gas f m)\<lparr>fresh := k\<rparr> = with_gas f (m\<lparr>fresh := k\<rparr>)"
  by (simp_all add: with_gas_def)

lemma with_gas_zero: "f 0 = 0 \<Longrightarrow> (with_gas f m)\<lparr>gas := 0\<rparr> = with_gas f (m\<lparr>gas := 0\<rparr>)"
  by (simp add: with_gas_def)

lemma with_gas_getData [simp]: "getData (with_gas f m) i = getData m i"
  by (simp add: getData_def)
lemma with_gas_getCode [simp]: "getCode (with_gas f m) i = getCode m i"
  by (simp add: getCode_def)
lemma with_gas_numCode [simp]: "numCode (with_gas f m) = numCode m"
  by (simp add: numCode_def)
lemma with_gas_popData [simp]: "popData (with_gas f m) n = lift_gas f (popData m n)"
  by (simp add: popData_def)
lemma with_gas_popCode [simp]: "popCode (with_gas f m) n = lift_gas f (popCode m n)"
  by (simp add: popCode_def)
lemma with_gas_pushData [simp]: "pushData (with_gas f m) v = with_gas f (pushData m v)"
  by (simp add: pushData_def)
lemma with_gas_pushCode [simp]: "pushCode (with_gas f m) v = with_gas f (pushCode m v)"
  by (simp add: pushCode_def)
lemma with_gas_thunk [simp]: "thunk (with_gas f m) = with_gas f (thunk m)"
  by (simp add: thunk_def Let_def)
lemma with_gas_pushCode_array [simp]:
  "pushCode_array (with_gas f m) k cs = with_gas f (pushCode_array m k cs)"
  by (simp add: pushCode_array_def reverse_in_place_def Let_def)

lemma with_gas_shift_scan [simp]: "shift_scan (with_gas f m) i buf = shift_scan m i buf"
proof (induction m i buf rule: shift_scan.induct)
  case (1 m index buf)
  from 1 have IH: "index < numCode m \<Longrightarrow> getCode m index = Inr c \<Longrightarrow>
      c \<noteq> Constant (js ''Reset'') \<Longrightarrow>
      shift_scan (with_gas f m) (Suc index) (buf @ [c]) = shift_scan m (Suc index) (buf @ [c])"
    for c by simp
  show ?case
    by (subst shift_scan.simps, subst (2) shift_scan.simps)
       (auto split: sum.split simp: IH)
qed

lemma lift_gas_bind:
  "bind_e (lift_gas f r) g = bind_e r (\<lambda>m. g (with_gas f m))"
  by (cases r) (simp_all add: bind_e_def)

lemma lift_gas_bind':
  "lift_gas f (bind_e r g) = bind_e r (\<lambda>x. lift_gas f (g x))"
  by (cases r) (simp_all add: bind_e_def)

lemmas with_gas_simps = lift_gas_bind lift_gas_bind' with_gas_zero

lemma with_gas_Copy: "op_Copy (with_gas f m) = lift_gas f (op_Copy m)"
  by (simp add: op_Copy_def with_gas_simps split: sum.split)
lemma with_gas_Drop: "op_Drop (with_gas f m) = lift_gas f (op_Drop m)"
  by (simp add: op_Drop_def with_gas_simps split: sum.split)
lemma with_gas_Swap: "op_Swap (with_gas f m) = lift_gas f (op_Swap m)"
  by (simp add: op_Swap_def with_gas_simps split: sum.split prod.split)
lemma with_gas_Cat: "op_Cat (with_gas f m) = lift_gas f (op_Cat m)"
  by (simp add: op_Cat_def with_gas_simps split: sum.split prod.split)
lemma with_gas_Abs: "op_Abs (with_gas f m) = lift_gas f (op_Abs m)"
  by (simp add: op_Abs_def with_gas_simps split: sum.split)
lemma with_gas_Pair: "op_Pair (with_gas f m) = lift_gas f (op_Pair m)"
  by (simp add: op_Pair_def with_gas_simps split: sum.split prod.split)
lemma with_gas_App: "f 0 = 0 \<Longrightarrow> op_App (with_gas f m) = lift_gas f (op_App m)"
  by (simp add: op_App_def with_gas_simps split: sum.split)
lemma with_gas_Inl: "f 0 = 0 \<Longrightarrow> op_Inl (with_gas f m) = lift_gas f (op_Inl m)"
  by (simp add: op_Inl_def with_gas_simps split: sum.split prod.split)
lemma with_gas_Inr: "f 0 = 0 \<Longrightarrow> op_Inr (with_gas f m) = lift_gas f (op_Inr m)"
  by (simp add: op_Inr_def with_gas_simps split: sum.split prod.split)
lemma with_gas_Shift: "f 0 = 0 \<Longrightarrow> op_Shift (with_gas f m) = lift_gas f (op_Shift m)"
  by (simp add: op_Shift_def with_gas_simps split: sum.split prod.split)
lemma with_gas_Reset: "f 0 = 0 \<Longrightarrow> op_Reset (with_gas f m) = lift_gas f (op_Reset m)"
  by (simp add: op_Reset_def with_gas_simps)
lemma with_gas_Define: "f 0 = 0 \<Longrightarrow> op_Define (with_gas f m) = lift_gas f (op_Define m)"
  by (simp add: op_Define_def with_gas_simps split: sum.split prod.split option.split)
lemma with_gas_Delete: "f 0 = 0 \<Longrightarrow> op_Delete (with_gas f m) = lift_gas f (op_Delete m)"
  by (simp add: op_Delete_def with_gas_simps split: sum.split prod.split option.split)

lemmas with_gas_ops = with_gas_Copy with_gas_Drop with_gas_Swap with_gas_Cat with_gas_Abs
  with_gas_Pair with_gas_App with_gas_Inl with_gas_Inr with_gas_Shift with_gas_Reset
  with_gas_Define with_gas_Delete

lemma with_gas_combinator:
  "f 0 = 0 \<Longrightarrow> combinator name (with_gas f m) = lift_gas f (combinator name m)"
  by (simp add: combinator_def with_gas_ops)

lemma with_gas_iteration:
  assumes z: "f 0 = 0" and d: "f (gas m) - 1 = f (gas m - 1)"
  shows "iteration (with_gas f m) = lift_gas f (iteration m)"
proof -
  let ?m = "m\<lparr>gas := gas m - 1\<rparr>"
  have m: "(with_gas f m)\<lparr>gas := gas (with_gas f m) - 1\<rparr> = with_gas f ?m"
    using d by (simp add: with_gas_def)
  show ?thesis
  proof (cases "getCode ?m 0")
    case (Inl e)
    then show ?thesis
      unfolding iteration_def Let_def m by (simp add: bind_e_def)
  next
    case (Inr hand)
    show ?thesis
      unfolding iteration_def Let_def m
      by (cases hand)
         (simp_all add: Inr bind_e_def with_gas_combinator z with_gas_zero
            split: sum.split option.split)
  qed
qed

lemma number_of_int_pred:
  assumes "0 < g" "g \<le> 2 ^ 53"
  shows "Finite (of_int g) - 1 = Finite (of_int (g - 1))"
proof -
  have "round_double (of_int (g - 1)) = Finite (of_int (g - 1))"
    using assms by (intro round_double_int) simp_all
  then show ?thesis by (simp add: minus_number_def one_number_def)
qed

lemma run_gas_number:
  "gas m \<le> 2 ^ 53 \<Longrightarrow>
   run_gas (with_gas (\<lambda>g. Finite (of_int g)) m) n =
     Some (lift_gas (\<lambda>g. Finite (of_int g)) (fst (run m n)), snd (run m n))"
proof (induction m n rule: run.induct)
  case (1 m n)
  let ?F = "\<lambda>g :: int. Finite (of_int g)"
  have z: "?F 0 = 0" by (simp add: zero_number_def)
  have c: "0 < Finite (of_int (gas m)) \<longleftrightarrow> 0 < gas m"
    by (simp add: less_number_def zero_number_def)
  show ?case
  proof (cases "0 < length (code m) \<and> 0 < gas m")
    case False
    then have "run m n = (Inr m, n)"
      by (auto simp: run.simps [of m n])
    moreover from False have "run_gas (with_gas ?F m) n = Some (Inr (with_gas ?F m), n)"
      by (subst run_gas.simps) (auto simp: c)
    ultimately show ?thesis by simp
  next
    case True
    then have "?F (gas m) - 1 = ?F (gas m - 1)"
      using "1.prems" by (simp add: number_of_int_pred)
    then have i: "iteration (with_gas ?F m) = lift_gas ?F (iteration m)"
      using z by (intro with_gas_iteration)
    show ?thesis
    proof (cases "iteration m")
      case (Inl e)
      with True have "run m n = (Inl e, Suc n)"
        by (simp add: run.simps [of m n])
      moreover from True Inl i have "run_gas (with_gas ?F m) n = Some (Inl e, Suc n)"
        by (subst run_gas.simps) (simp add: c)
      ultimately show ?thesis by simp
    next
      case (Inr m')
      with gas_iteration [of m] True "1.prems" have "gas m' \<le> 2 ^ 53" by auto
      note IH = "1.IH" [OF True Inr this]
      from True Inr have "run m n = run m' (Suc n)"
        by (simp add: run.simps [of m n])
      moreover from True Inr i
      have "run_gas (with_gas ?F m) n = run_gas (with_gas ?F m') (Suc n)"
        by (subst run_gas.simps) (simp add: c)
      ultimately show ?thesis using IH by simp
    qed
  qed
qed

lemma residual_with_gas [simp]: "residual (with_gas f m) = residual m"
  by (simp add: residual_def)

lemma evaluate_number_int:
  assumes "g \<le> 2 ^ 53"
  shows "evaluate_number x d (Finite (of_int g)) k =
     Some (evaluate x d g k, evaluate_iterations x d g k)"
proof -
  have "initial x d (Finite (of_int g)) k = with_gas (\<lambda>g. Finite (of_int g)) (initial x d g k)"
    by (simp add: initial_def with_gas_def)
  moreover have "gas (initial x d g k) \<le> 2 ^ 53"
    using assms by (simp add: initial_def)
  ultimately show ?thesis
    by (simp add: evaluate_number_def evaluate_def evaluate_iterations_def run_gas_number
        lift_gas_def split: sum.split)
qed

text \<open>
  C8, as the code has it. The gas is a double. For every initial value \<open>x\<close>,
  dictionary \<open>d\<close> and gas that is an integer \<open>g\<close> from \<open>0\<close> to \<open>2\<close> to the \<open>53\<close>, the call
  \<open>evaluate(x, d, g)\<close> returns, with the residual or with an exception, after at
  most \<open>g\<close> rounds of the loop.
\<close>

theorem gas_bounds_rounds:
  "0 \<le> g \<Longrightarrow> g \<le> 2 ^ 53 \<Longrightarrow>
   \<exists>r n. evaluate_number x d (Finite (of_int g)) k = Some (r, n) \<and> int n \<le> g"
proof -
  assume g: "0 \<le> g" "g \<le> 2 ^ 53"
  then have "nat g \<le> 2 ^ 53" by (simp add: nat_le_iff)
  moreover have "gas (initial x d (Finite (of_int g)) k) = Finite (real (nat g))"
    using g by (simp add: initial_def)
  ultimately obtain r n where
    "run_gas (initial x d (Finite (of_int g)) k) 0 = Some (r, n)" "n \<le> 0 + nat g"
    using run_gas_bound by blast
  with g show ?thesis by (simp add: evaluate_number_def)
qed

theorem gas_bounds_rounds_witness:
  "(0::int) \<le> 3 \<and> (3::int) \<le> 2 ^ 53 \<and>
   (\<exists>r n. evaluate_number (Constant (js ''Foo'')) None (Finite (of_int 3)) 0 = Some (r, n) \<and>
      int n \<le> 3)"
  using gas_bounds_rounds [of 3 "Constant (js ''Foo'')" None 0] by simp

text \<open>
  C8, as the claim has it (at most \<open>g\<close> rounds for every gas \<open>g \<ge> 0\<close>), fails twice.
  At the gas \<open>2\<close> to the \<open>53\<close> plus \<open>4\<close>, an integer, \<open>gas--\<close> leaves the gas as it is,
  and \<open>evaluate\<close> of the Constant \<open>Foo\<close> never returns. At the gas \<open>1 / 2\<close> the loop
  runs one round, which is more than the gas.
\<close>

theorem gas_no_op_counterexample:
  "evaluate_number (Constant (js ''Foo'')) None (Finite (2 ^ 53 + 4)) 0 = None \<and>
   evaluate_number (Constant (js ''Foo'')) None (Finite (1 / 2)) 0 =
     Some (Inr (Catenate 0 [Constant (js ''Foo'')]), 1)"
proof
  have "run_gas (initial (Constant (js ''Foo'')) None (Finite (2 ^ 53 + 4)) 0) 0 = None"
    using run_gas_no_op [of "initial (Constant (js ''Foo'')) None (Finite (2 ^ 53 + 4)) 0" 0]
    by (cases "run_gas (initial (Constant (js ''Foo'')) None (Finite (2 ^ 53 + 4)) 0) 0")
       (simp_all add: initial_def)
  then show "evaluate_number (Constant (js ''Foo'')) None (Finite (2 ^ 53 + 4)) 0 = None"
    by (simp add: evaluate_number_def)
next
  let ?m = "initial (Constant (js ''Foo'')) None (Finite (1 / 2)) 0"
  have "run_gas ?m 0 = run_gas (?m\<lparr>gas := Finite (- (1 / 2))\<rparr>) 1"
    by (subst run_gas.simps)
       (simp add: iteration_Foo initial_def less_number_def zero_number_def
          minus_number_def one_number_def round_double_minus_half)
  also have "\<dots> = Some (Inr (?m\<lparr>gas := Finite (- (1 / 2))\<rparr>), 1)"
    by (subst run_gas.simps) (simp add: less_number_def zero_number_def)
  finally show "evaluate_number (Constant (js ''Foo'')) None (Finite (1 / 2)) 0 =
      Some (Inr (Catenate 0 [Constant (js ''Foo'')]), 1)"
    by (simp add: evaluate_number_def residual_def initial_def catenate_def)
qed

section \<open>What \<open>evaluate\<close> raises\<close>

text \<open>
  C1. The claim says that \<open>evaluate\<close> of the empty program returns Id. The parse of
  the empty string is Id, and \<open>evaluate\<close> of Id raises \<open>Unknown\<close> in its first round:
  no \<open>instanceof\<close> test of the loop names the class Id. So does every program that
  brings an Id on top of the code, such as \<open>[] App\<close>.
\<close>

theorem empty_program_raises_Unknown:
  "read [] 0 = Inr (IdV, 1)
   \<and> evaluate IdV None 1000000 1 = Inl (Unknown IdV)
   \<and> evaluate_source [] None 1000000 0 = Inl (Unknown IdV)
   \<and> evaluate_source (js ''[] App'') None 1000000 0 = Inl (Unknown IdV)"
  by (simp add: eval_defs cong: sum.case_cong_weak)

lemma getCode_top: "code m \<noteq> [] \<Longrightarrow> getCode m 0 = Inr (last (code m))"
  by (simp add: getCode_def last_conv_nth)

lemma iteration_Constant:
  assumes "code m \<noteq> []" and "last (code m) = Constant name"
  shows "iteration m = combinator name (m\<lparr>gas := gas m - 1\<rparr>)"
proof -
  have "getCode (m\<lparr>gas := gas m - 1\<rparr>) 0 = Inr (Constant name)"
    using assms getCode_top [of "m\<lparr>gas := gas m - 1\<rparr>"] by simp
  then show ?thesis
    by (simp add: iteration_def Let_def bind_e_def)
qed

lemma combinator_unknown:
  "name \<notin> set combinator_names \<Longrightarrow> combinator name m = Inr m"
  by (simp add: combinator_def combinator_names_def)

lemma iteration_unknown_constant:
  assumes "code m \<noteq> []" and "last (code m) = Constant name"
    and "name \<notin> set combinator_names"
  shows "iteration m = Inr (m\<lparr>gas := gas m - 1\<rparr>)"
  using assms by (simp add: iteration_Constant combinator_unknown)

text \<open>
  A Constant of another name on top of the code is never removed: every round
  leaves the machine as it is, but for the gas.
\<close>

lemma run_unknown_constant:
  assumes "code m \<noteq> []" and "last (code m) = Constant name"
    and "name \<notin> set combinator_names"
  shows "gas m = int j \<Longrightarrow> run m n = (Inr (m\<lparr>gas := 0\<rparr>), n + j)"
  using assms(1,2)
proof (induction j arbitrary: m n)
  case 0
  then show ?case by (simp add: run.simps [of m n])
next
  case (Suc j)
  let ?m = "m\<lparr>gas := gas m - 1\<rparr>"
  have it: "iteration m = Inr ?m"
    using Suc.prems assms(3) by (intro iteration_unknown_constant) auto
  have "run ?m (Suc n) = (Inr (?m\<lparr>gas := 0\<rparr>), Suc n + j)"
    using Suc.prems by (intro Suc.IH) auto
  then show ?case
    using Suc.prems it by (simp add: run.simps [of m n])
qed

text \<open>
  C2. The claim says that \<open>Unknown\<close> is raised exactly for a Constant whose name is
  not a combinator name. For the Constant \<open>Foo\<close> nothing is raised: the loop runs
  until the gas is used up, 1000000 rounds, and the residual is the program itself.
  \<open>Unknown\<close> is raised for an Id instead.
\<close>

theorem unknown_constant_is_not_raised:
  "evaluate (Constant (js ''Foo'')) None 1000000 0 = Inr (Catenate 0 [Constant (js ''Foo'')])
   \<and> evaluate_iterations (Constant (js ''Foo'')) None 1000000 0 = 1000000
   \<and> evaluate IdV None 1000000 0 = Inl (Unknown IdV)"
proof -
  let ?m = "initial (Constant (js ''Foo'')) None 1000000 0"
  have "js ''Foo'' \<notin> set combinator_names"
    by (simp add: combinator_names_def js_def)
  then have "run ?m 0 = (Inr (?m\<lparr>gas := 0\<rparr>), 0 + 1000000)"
    by (intro run_unknown_constant) (simp_all add: initial_def)
  moreover have "evaluate IdV None 1000000 0 = Inl (Unknown IdV)"
    by (simp add: eval_defs cong: sum.case_cong_weak)
  ultimately show ?thesis
    by (simp add: evaluate_def evaluate_iterations_def residual_def initial_def catenate_def)
qed

section \<open>Aliasing\<close>

text \<open>
  C4. The claim says that no step changes a value that exists already, and that a
  dictionary binding resolves to the same term every time. The program below
  defines \<open>f\<close> as \<open>"x" "y"\<close> and uses it twice. The first use splices the Catenate of
  the binding onto the code, which reverses its children array in place; the second
  use finds the binding reversed and pushes \<open>"y" "x"\<close>. In the same way, running
  one of the two copies that \<open>Copy\<close> makes of the Quote \<open>[a b]\<close> reverses the other.
\<close>

theorem binding_reversed_by_first_use:
  \<open>render (evaluate_source (js ''["x" "y"] "f" Define f f'') (Some Map.empty) 1000000 0)
     = Inr (js ''"x" "y" "y" "x"'')
   \<and> render (evaluate_source (js ''[a b] Copy App'') None 1000000 0)
     = Inr (js ''[b a] a b'')\<close>
  by (simp add: eval_defs Let_def cong: sum.case_cong_weak)

section \<open>Suspension\<close>

lemma body_cases: "(if hasBody v then \<exists>b. body v = Inr b else body v = Inl (NoSuchProperty ''body''))"
  by (cases v) simp_all
lemma text_of_cases: "(if hasText v then \<exists>s. text_of v = Inr s else text_of v = Inl (NoSuchProperty ''string''))"
  by (cases v) simp_all

lemma not_hasBody [simp]: "\<not> hasBody v \<Longrightarrow> body v = Inl (NoSuchProperty ''body'')"
  using body_cases [of v] by simp
lemma not_hasText [simp]: "\<not> hasText v \<Longrightarrow> text_of v = Inl (NoSuchProperty ''string'')"
  using text_of_cases [of v] by simp

lemma getData_arg:
  "getData m i = (if i < length (data m) then Inr (arg i m) else Inl NoMoreData)"
  by (simp add: getData_def arg_def)


lemma arg_gas [simp]: "arg i (m\<lparr>gas := g\<rparr>) = arg i m"
  by (simp add: arg_def)

lemma Define_starved:
  "dictionary m = None \<or> length (data m) < 2 \<or> \<not> hasText (arg 0 m) \<or> \<not> hasBody (arg 1 m)
   \<Longrightarrow> op_Define m = Inr ((thunk m)\<lparr>gas := 0\<rparr>)"
  by (auto simp: op_Define_def getData_arg bind_e_def split: sum.split option.split)
lemma Delete_starved:
  "dictionary m = None \<or> data m = [] \<or> \<not> hasText (arg 0 m)
   \<Longrightarrow> op_Delete m = Inr ((thunk m)\<lparr>gas := 0\<rparr>)"
  by (auto simp: op_Delete_def getData_arg bind_e_def split: sum.split option.split)


lemma getCode_rev: "j < length (code m) \<Longrightarrow> getCode m j = Inr (rev (code m) ! j)"
  by (simp add: getCode_def rev_nth)

lemma shift_scan_takeWhile:
  "index \<le> length (code m) \<Longrightarrow>
   shift_scan m index buf =
     Inr (index + length (takeWhile (\<lambda>c. c \<noteq> Constant (js ''Reset'')) (drop index (rev (code m)))),
          buf @ takeWhile (\<lambda>c. c \<noteq> Constant (js ''Reset'')) (drop index (rev (code m))))"
proof (induction m index buf rule: shift_scan.induct)
  case (1 m index buf)
  show ?case
  proof (cases "index < length (code m)")
    case False
    then show ?thesis
      by (subst shift_scan.simps) (simp add: numCode_def)
  next
    case True
    then have d: "drop index (rev (code m)) = rev (code m) ! index # drop (Suc index) (rev (code m))"
      by (simp add: Cons_nth_drop_Suc)
    show ?thesis
    proof (cases "rev (code m) ! index = Constant (js ''Reset'')")
      case R: True
      with True d show ?thesis
        by (subst shift_scan.simps) (simp add: numCode_def getCode_rev)
    next
      case R: False
      have "shift_scan m (index + 1) (buf @ [rev (code m) ! index]) =
         Inr (index + 1 + length (takeWhile (\<lambda>c. c \<noteq> Constant (js ''Reset'')) (drop (index + 1) (rev (code m)))),
          (buf @ [rev (code m) ! index]) @ takeWhile (\<lambda>c. c \<noteq> Constant (js ''Reset'')) (drop (index + 1) (rev (code m))))"
        using True R by (intro "1.IH") (simp_all add: numCode_def getCode_rev)
      with True R d show ?thesis
        by (subst shift_scan.simps) (simp add: numCode_def getCode_rev)
    qed
  qed
qed


lemma Shift_fires:
  assumes c: "code m = rest @ [Constant (js ''Reset'')] @ rev items @ [Constant (js ''Shift'')]"
    and i: "Constant (js ''Reset'') \<notin> set items"
    and d: "data m = ds @ [Quote handler]"
  shows "op_Shift m =
     Inr (m\<lparr>code := rest @ [handler],
            data := ds @ [Quote (catenate (fresh m) items)],
            fresh := Suc (fresh m)\<rparr>)"
proof -
  have h: "bind_e (getData m 0) body = Inr handler"
    using d by (simp add: getData_def bind_e_def)
  have "drop (Suc 0) (rev (code m)) = items @ Constant (js ''Reset'') # rev rest"
    using c by simp
  then have "takeWhile (\<lambda>c. c \<noteq> Constant (js ''Reset'')) (drop (Suc 0) (rev (code m))) = items"
    using i by (auto simp: takeWhile_tail)
  then have s: "shift_scan m (Suc 0) [] = Inr (Suc (length items), items)"
    using c shift_scan_takeWhile [of "Suc 0" m "[]"] by simp
  show ?thesis
    using c d by (simp add: op_Shift_def h s numCode_def popCode_def popData_def
        pushData_def pushCode_def)
qed



lemma js_neq [simp]: "js a = js b \<longleftrightarrow> a = b"
  by (simp add: js_def inj_map_eq_map [OF inj_of_char])






section \<open>\<open>Define\<close> and \<open>Delete\<close>\<close>

text \<open>
  C10. When \<open>Define\<close> is the instruction and there is no dictionary, or fewer than
  two values on the data, or the value on top is no Text, or the value below it has
  no body, the round returns and leaves the dictionary as it was; so does \<open>Delete\<close>
  when there is no dictionary, no value on the data, or the value on top is no Text.
\<close>

theorem failing_Define_Delete_keep_dictionary:
  assumes "code m \<noteq> []"
  shows
    "(last (code m) = Constant (js ''Define'')
        \<and> (dictionary m = None \<or> length (data m) < 2
            \<or> \<not> hasText (arg 0 m) \<or> \<not> hasBody (arg 1 m))
        \<longrightarrow> (\<exists>m'. iteration m = Inr m' \<and> dictionary m' = dictionary m))
   \<and> (last (code m) = Constant (js ''Delete'')
        \<and> (dictionary m = None \<or> data m = [] \<or> \<not> hasText (arg 0 m))
        \<longrightarrow> (\<exists>m'. iteration m = Inr m' \<and> dictionary m' = dictionary m))"
proof -
  let ?m = "m\<lparr>gas := gas m - 1\<rparr>"
  have it: "last (code m) = Constant n \<Longrightarrow> iteration m = combinator n ?m" for n
    using assms by (rule iteration_Constant)
  have d: "dictionary ((thunk ?m)\<lparr>gas := 0\<rparr>) = dictionary m"
    by (simp add: thunk_def Let_def)
  show ?thesis
    by (intro conjI impI; elim conjE)
       (simp_all add: it combinator_def Define_starved [of ?m, simplified]
          Delete_starved [of ?m, simplified] d)
qed

text \<open>The theorem at a \<open>Define\<close> with one value on the data, and a \<open>Delete\<close> of a Quote.\<close>

theorem failing_Define_Delete_keep_dictionary_witness:
  "(\<exists>m'. iteration \<lparr>code = [Constant (js ''Define'')], data = [Text (js ''f'')], sink = [],
               dictionary = Some (Map.empty(js ''g'' \<mapsto> IdV)), gas = (5::int), fresh = 0\<rparr> = Inr m'
      \<and> dictionary m' = Some (Map.empty(js ''g'' \<mapsto> IdV)))
   \<and> (\<exists>m'. iteration \<lparr>code = [Constant (js ''Delete'')], data = [Quote IdV], sink = [],
               dictionary = Some (Map.empty(js ''g'' \<mapsto> IdV)), gas = (5::int), fresh = 0\<rparr> = Inr m'
      \<and> dictionary m' = Some (Map.empty(js ''g'' \<mapsto> IdV)))"
  using
    failing_Define_Delete_keep_dictionary [of "\<lparr>code = [Constant (js ''Define'')],
       data = [Text (js ''f'')], sink = [],
       dictionary = Some (Map.empty(js ''g'' \<mapsto> IdV)), gas = (5::int), fresh = 0\<rparr>"]
    failing_Define_Delete_keep_dictionary [of "\<lparr>code = [Constant (js ''Delete'')],
       data = [Quote IdV], sink = [],
       dictionary = Some (Map.empty(js ''g'' \<mapsto> IdV)), gas = (5::int), fresh = 0\<rparr>"]
  by (simp add: arg_def)

section \<open>\<open>Shift\<close> and \<open>Reset\<close>\<close>

text \<open>
  C3. Let \<open>Shift\<close> be on top of the code, \<open>items\<close> the values below it from the
  position 1 on, none of them the constant \<open>Reset\<close>, then the constant \<open>Reset\<close>, then
  \<open>rest\<close>; and let a Quote of \<open>handler\<close> be on top of the data. Then the round replaces
  that Quote by the Quote of \<open>catenate\<close> of the items, in this order, removes \<open>Shift\<close>,
  the items and the \<open>Reset\<close> from the code and pushes \<open>handler\<close> onto it. With no
  dictionary, \<open>[handler] Shift body0 body1 body2 Reset\<close> renders
  \<open>[body0 body1 body2] handler\<close>.
\<close>

theorem shift_captures_up_to_reset:
  assumes "code m = rest @ [Constant (js ''Reset'')] @ rev items @ [Constant (js ''Shift'')]"
    and "Constant (js ''Reset'') \<notin> set items"
    and "data m = ds @ [Quote handler]"
  shows
    "iteration m =
       Inr (m\<lparr>code := rest @ [handler],
              data := ds @ [Quote (catenate (fresh m) items)],
              gas := gas m - 1,
              fresh := Suc (fresh m)\<rparr>)
     \<and> render (evaluate_source (js ''[handler] Shift body0 body1 body2 Reset'') None 1000000 k)
         = Inr (js ''[body0 body1 body2] handler'')"
proof -
  let ?m = "m\<lparr>gas := gas m - 1\<rparr>"
  have "iteration m = combinator (js ''Shift'') ?m"
    using assms(1) by (intro iteration_Constant) simp_all
  also have "\<dots> = op_Shift ?m"
    by (simp add: combinator_def)
  also have "\<dots> = Inr (?m\<lparr>code := rest @ [handler],
              data := ds @ [Quote (catenate (fresh ?m) items)],
              fresh := Suc (fresh ?m)\<rparr>)"
    using assms by (intro Shift_fires) simp_all
  finally have "iteration m =
       Inr (m\<lparr>code := rest @ [handler],
              data := ds @ [Quote (catenate (fresh m) items)],
              gas := gas m - 1,
              fresh := Suc (fresh m)\<rparr>)"
    by simp
  moreover have
    "render (evaluate_source (js ''[handler] Shift body0 body1 body2 Reset'') None 1000000 k)
         = Inr (js ''[body0 body1 body2] handler'')"
    by (simp add: eval_defs Let_def cong: sum.case_cong_weak)
  ultimately show ?thesis by simp
qed

text \<open>The theorem at a machine with two items between \<open>Shift\<close> and \<open>Reset\<close>.\<close>

theorem shift_captures_up_to_reset_witness:
  "iteration \<lparr>code = [Constant (js ''Drop''), Constant (js ''Reset''), Variable (js ''b''),
                      Variable (js ''a''), Constant (js ''Shift'')],
               data = [Text (js ''t''), Quote (Variable (js ''h''))], sink = [],
               dictionary = None, gas = (5::int), fresh = 7\<rparr>
     = Inr \<lparr>code = [Constant (js ''Drop''), Variable (js ''h'')],
             data = [Text (js ''t''), Quote (Catenate 7 [Variable (js ''a''), Variable (js ''b'')])],
             sink = [], dictionary = None, gas = (4::int), fresh = 8\<rparr>"
  using shift_captures_up_to_reset [of
      "\<lparr>code = [Constant (js ''Drop''), Constant (js ''Reset''), Variable (js ''b''),
                      Variable (js ''a''), Constant (js ''Shift'')],
               data = [Text (js ''t''), Quote (Variable (js ''h''))], sink = [],
               dictionary = None, gas = (5::int), fresh = 7\<rparr>"
      "[Constant (js ''Drop'')]" "[Variable (js ''a''), Variable (js ''b'')]"
      "[Text (js ''t'')]" "Variable (js ''h'')" 0]
  by (simp add: catenate_def)

section \<open>Parse, print, parse\<close>

lemma token_Quote: "token (Quote b) = program b"
  by (cases b) simp_all

lemma spliced_token: "token t \<Longrightarrow> spliced t = [t]"
  by (cases t) simp_all

lemma concat_spliced_tokens: "list_all token ts \<Longrightarrow> concat (map spliced ts) = ts"
  by (induction ts) (simp_all add: spliced_token)

lemma catenate_tokens:
  "list_all token ts \<Longrightarrow> catenate k ts = (if ts = [] then IdV else Catenate k ts)"
  by (cases ts) (simp_all add: catenate_concat concat_spliced_tokens spliced_token)

lemma program_catenate: "list_all token ts \<Longrightarrow> program (catenate k ts)"
  by (simp add: catenate_tokens)

lemma list_all_takeWhile: "list_all P (takeWhile P xs)"
  by (induction xs) simp_all

lemma read_loop_program:
  "read_loop src build stack k = Inr (v, k') \<Longrightarrow> list_all token build \<Longrightarrow>
   list_all (list_all token) stack \<Longrightarrow> program v"
proof (induction src build stack k rule: read_loop.induct)
  case (1 build stack k)
  then show ?case
    by (auto simp: read_loop.simps program_catenate split: if_splits)
next
  case (2 c cs build stack k)
  note r = "2.prems"(1) [unfolded read_loop.simps(2) [of c cs build stack k]]
  have last_ok: "stack \<noteq> [] \<Longrightarrow> list_all token (last stack) \<and> list_all (list_all token) (butlast stack)"
    using "2.prems"(3) by (cases stack rule: rev_cases) simp_all
  show ?case
  proof (cases "isSpace c")
    case True
    with r "2.prems" "2.IH"(1) show ?thesis by simp
  next
    case sp: False
    show ?thesis
    proof (cases "c = of_char CHR ''[''")
      case True
      with sp r "2.prems" "2.IH"(2) show ?thesis by simp
    next
      case lb: False
      show ?thesis
      proof (cases "c = of_char CHR '']''")
        case True
        with sp lb r "2.prems" last_ok "2.IH"(3) [OF sp lb True] show ?thesis
          by (auto simp: token_Quote program_catenate split: if_splits)
      next
        case rb: False
        show ?thesis
        proof (cases "c = of_char (CHR 0x22)")
          case True
          with sp lb rb r "2.prems" "2.IH"(4) [OF sp lb rb True refl refl] show ?thesis
            by (auto simp: Let_def list_all_takeWhile split: if_splits)
        next
          case dq: False
          show ?thesis
          proof (cases "c = of_char CHR ''{''")
            case True
            with sp lb rb dq r "2.prems" "2.IH"(5) [OF sp lb rb dq True refl refl] show ?thesis
              by (auto simp: Let_def list_all_takeWhile split: if_splits)
          next
            case br: False
            show ?thesis
            proof (cases "isUpper c")
              case True
              with sp lb rb dq br r "2.prems" "2.IH"(6) [OF sp lb rb dq br True refl refl]
              show ?thesis
                by (auto simp: Let_def split: if_splits)
            next
              case False
              with sp lb rb dq br r "2.prems" "2.IH"(7) [OF sp lb rb dq br False refl refl]
              show ?thesis
                by (auto simp: Let_def split: if_splits)
            qed
          qed
        qed
      qed
    qed
  qed
qed

lemma reads_backI:
  assumes "\<And>rest k. rest = [] \<or> isSeparator (hd rest) \<Longrightarrow>
     \<exists>ts' k'. map shape ts' = map shape ts \<and> list_all token ts' \<and>
           (\<forall>build stack.
              read_loop (src @ rest) build stack k = read_loop rest (build @ ts') stack k')"
  shows "reads_back ts src"
  using assms unfolding reads_back_def by blast

lemma reads_backD:
  assumes "reads_back ts src" and "rest = [] \<or> isSeparator (hd rest)"
  obtains ts' k' where "map shape ts' = map shape ts" and "list_all token ts'"
    and "\<And>build stack. read_loop (src @ rest) build stack k = read_loop rest (build @ ts') stack k'"
  using assms unfolding reads_back_def by blast

lemma upper_class:
  "isUpper c \<Longrightarrow> \<not> isSpace c \<and> c \<noteq> of_char CHR ''['' \<and> c \<noteq> of_char CHR '']''
     \<and> c \<noteq> of_char (CHR 0x22) \<and> c \<noteq> of_char CHR ''{''"
  by (auto simp: class_defs)

lemma lower_class:
  "isLower c \<Longrightarrow> \<not> isSpace c \<and> c \<noteq> of_char CHR ''['' \<and> c \<noteq> of_char CHR '']''
     \<and> c \<noteq> of_char (CHR 0x22) \<and> c \<noteq> of_char CHR ''{'' \<and> \<not> isUpper c"
  by (auto simp: class_defs)

lemma nameChar_not_separator: "isNameChar c \<Longrightarrow> \<not> isSeparator c"
  by (auto simp: class_defs)

lemma name_scan:
  assumes "list_all isNameChar cs" and "rest = [] \<or> isSeparator (hd rest)"
  shows "takeWhile (\<lambda>x. \<not> isSeparator x) (cs @ rest) = cs"
    and "dropWhile (\<lambda>x. \<not> isSeparator x) (cs @ rest) = rest"
proof -
  have a: "\<forall>x\<in>set cs. \<not> isSeparator x"
    using assms(1) by (auto simp: list_all_iff nameChar_not_separator)
  have t: "takeWhile (\<lambda>x. \<not> isSeparator x) rest = []" and d: "dropWhile (\<lambda>x. \<not> isSeparator x) rest = rest"
    using assms(2) by (cases rest; simp)+
  show "takeWhile (\<lambda>x. \<not> isSeparator x) (cs @ rest) = cs"
    using a t by (simp add: takeWhile_append)
  show "dropWhile (\<lambda>x. \<not> isSeparator x) (cs @ rest) = rest"
    using a d by (simp add: dropWhile_append)
qed

lemma delimited_scan:
  assumes "list_all (\<lambda>x. x \<noteq> q) s"
  shows "takeWhile (\<lambda>x. x \<noteq> q) (s @ q # rest) = s"
    and "dropWhile (\<lambda>x. x \<noteq> q) (s @ q # rest) = q # rest"
  using assms by (auto simp: list_all_iff takeWhile_tail dropWhile_append)

lemma reads_back_Constant:
  assumes "token (Constant name)"
  shows "reads_back [Constant name] (toString (Constant name))"
proof (rule reads_backI)
  fix rest :: jsstring and k :: nat
  assume rest: "rest = [] \<or> isSeparator (hd rest)"
  from assms obtain c cs where n: "name = c # cs" and c: "isUpper c" and cs: "list_all isNameChar cs"
    by (cases name) auto
  have "read_loop (toString (Constant name) @ rest) build stack k
      = read_loop rest (build @ [Constant name]) stack k" for build stack
    using upper_class [OF c] c cs
    by (simp add: n read_loop.simps(2) [of c] name_scan [OF cs rest] Let_def)
  with assms show "\<exists>ts' k'. map shape ts' = map shape [Constant name] \<and> list_all token ts' \<and>
           (\<forall>build stack. read_loop (toString (Constant name) @ rest) build stack k
               = read_loop rest (build @ ts') stack k')"
    by (intro exI [of _ "[Constant name]"] exI [of _ k]) simp
qed

lemma reads_back_Variable:
  assumes "token (Variable name)"
  shows "reads_back [Variable name] (toString (Variable name))"
proof (rule reads_backI)
  fix rest :: jsstring and k :: nat
  assume rest: "rest = [] \<or> isSeparator (hd rest)"
  from assms obtain c cs where n: "name = c # cs" and c: "isLower c" and cs: "list_all isNameChar cs"
    by (cases name) auto
  have "read_loop (toString (Variable name) @ rest) build stack k
      = read_loop rest (build @ [Variable name]) stack k" for build stack
    using lower_class [OF c] c cs
    by (simp add: n read_loop.simps(2) [of c] name_scan [OF cs rest] Let_def)
  with assms show "\<exists>ts' k'. map shape ts' = map shape [Variable name] \<and> list_all token ts' \<and>
           (\<forall>build stack. read_loop (toString (Variable name) @ rest) build stack k
               = read_loop rest (build @ ts') stack k')"
    by (intro exI [of _ "[Variable name]"] exI [of _ k]) simp
qed

lemma reads_back_Text:
  assumes "token (Text s)"
  shows "reads_back [Text s] (toString (Text s))"
proof (rule reads_backI)
  fix rest :: jsstring and k :: nat
  have "read_loop (toString (Text s) @ rest) build stack k
      = read_loop rest (build @ [Text s]) stack k" for build stack
    using assms delimited_scan [of "of_char (CHR 0x22)" s rest]
    by (simp add: js_def read_loop.simps(2) [of "34"] Let_def class_defs)
  with assms show "\<exists>ts' k'. map shape ts' = map shape [Text s] \<and> list_all token ts' \<and>
           (\<forall>build stack. read_loop (toString (Text s) @ rest) build stack k
               = read_loop rest (build @ ts') stack k')"
    by (intro exI [of _ "[Text s]"] exI [of _ k]) simp
qed

lemma reads_back_Prompt:
  assumes "token (Prompt s)"
  shows "reads_back [Prompt s] (toString (Prompt s))"
proof (rule reads_backI)
  fix rest :: jsstring and k :: nat
  have "read_loop (toString (Prompt s) @ rest) build stack k
      = read_loop rest (build @ [Prompt s]) stack k" for build stack
    using assms delimited_scan [of "of_char CHR ''}''" s rest]
    by (simp add: js_def read_loop.simps(2) [of "123"] Let_def class_defs)
  with assms show "\<exists>ts' k'. map shape ts' = map shape [Prompt s] \<and> list_all token ts' \<and>
           (\<forall>build stack. read_loop (toString (Prompt s) @ rest) build stack k
               = read_loop rest (build @ ts') stack k')"
    by (intro exI [of _ "[Prompt s]"] exI [of _ k]) simp
qed

lemma token_starts: "token t \<Longrightarrow> toString t \<noteq> [] \<and> \<not> isSpace (hd (toString t))"
proof (cases t)
  case (Constant name)
  assume "token t"
  with Constant show ?thesis using upper_class [of "hd name"] by simp
next
  case (Variable name)
  assume "token t"
  with Variable show ?thesis using lower_class [of "hd name"] by simp
qed (simp_all add: js_def class_defs)

lemma printed_Cons: "printed (t # ts) = toString t @ (if ts = [] then [] else js '' '' @ printed ts)"
  by (cases ts) (simp_all add: printed_def)

lemma printed_starts:
  assumes "list_all token ts" and "ts \<noteq> []"
  shows "printed ts @ rest \<noteq> [] \<and> \<not> isSpace (hd (printed ts @ rest))"
proof -
  from assms obtain t us where ts: "ts = t # us" and t: "token t"
    by (cases ts) auto
  from token_starts [OF t] show ?thesis
    by (simp add: ts printed_Cons)
qed

lemma skip_space:
  assumes "src \<noteq> [] \<and> \<not> isSpace (hd src)"
  shows "read_loop (js '' '' @ src) build stack k = read_loop src build stack k"
proof -
  have "isSpace 32" by (simp add: isSpace_def)
  moreover have "dropWhile isSpace src = src"
    using assms by (cases src) simp_all
  ultimately show ?thesis
    by (simp add: js_def read_loop.simps(2) [of 32])
qed

lemma reads_back_Nil: "reads_back [] (printed [])"
  by (rule reads_backI) (auto simp: printed_def)

lemma reads_back_list:
  assumes "\<And>t. t \<in> set ts \<Longrightarrow> reads_back [t] (toString t)" and "list_all token ts"
  shows "reads_back ts (printed ts)"
  using assms
proof (induction ts)
  case Nil
  show ?case by (rule reads_back_Nil)
next
  case (Cons t ts)
  have single: "reads_back [t] (toString t)"
    using Cons.prems(1) by simp
  show ?case
  proof (cases "ts = []")
    case True
    with single show ?thesis by (simp add: printed_Cons)
  next
    case False
    have tl: "reads_back ts (printed ts)"
      using Cons.prems by (intro Cons.IH) simp_all
    have toks: "list_all token ts"
      using Cons.prems(2) by simp
    show ?thesis
    proof (rule reads_backI)
      fix rest :: jsstring and k :: nat
      assume rest: "rest = [] \<or> isSeparator (hd rest)"
      have sep: "js '' '' @ printed ts @ rest = [] \<or> isSeparator (hd (js '' '' @ printed ts @ rest))"
        by (simp add: js_def class_defs)
      from reads_backD [OF single sep, of k] obtain t1 k1 where
        s1: "map shape t1 = map shape [t]" and tk1: "list_all token t1" and
        r1: "\<And>build stack. read_loop (toString t @ js '' '' @ printed ts @ rest) build stack k
            = read_loop (js '' '' @ printed ts @ rest) (build @ t1) stack k1"
        by blast
      from reads_backD [OF tl rest, of k1] obtain t2 k2 where
        s2: "map shape t2 = map shape ts" and tk2: "list_all token t2" and
        r2: "\<And>build stack. read_loop (printed ts @ rest) build stack k1
            = read_loop rest (build @ t2) stack k2"
        by blast
      have "read_loop (printed (t # ts) @ rest) build stack k
          = read_loop rest (build @ (t1 @ t2)) stack k2" for build stack
        using False r1 [of build stack] r2 [of "build @ t1" stack]
          skip_space [OF printed_starts [OF toks False], of rest "build @ t1" stack k1]
        by (simp add: printed_Cons)
      with s1 s2 tk1 tk2
      show "\<exists>ts' k'. map shape ts' = map shape (t # ts) \<and> list_all token ts' \<and>
           (\<forall>build stack. read_loop (printed (t # ts) @ rest) build stack k
              = read_loop rest (build @ ts') stack k')"
        by (intro exI [of _ "t1 @ t2"] exI [of _ k2]) simp
    qed
  qed
qed

lemma reads_back_Quote_IdV: "reads_back [Quote IdV] (toString (Quote IdV))"
proof (rule reads_backI)
  fix rest :: jsstring and k :: nat
  have "read_loop (toString (Quote IdV) @ rest) build stack k
      = read_loop rest (build @ [Quote IdV]) stack (Suc k)" for build stack
    by (simp add: js_def read_loop.simps(2) [of 91] read_loop.simps(2) [of 93]
        class_defs catenate_def)
  then show "\<exists>ts' k'. map shape ts' = map shape [Quote IdV] \<and> list_all token ts' \<and>
           (\<forall>build stack. read_loop (toString (Quote IdV) @ rest) build stack k
              = read_loop rest (build @ ts') stack k')"
    by (intro exI [of _ "[Quote IdV]"] exI [of _ "Suc k"]) simp
qed

lemma reads_back_Quote:
  assumes ts: "reads_back ts (printed ts)" and ne: "ts \<noteq> []"
  shows "reads_back [Quote (Catenate j ts)] (toString (Quote (Catenate j ts)))"
proof (rule reads_backI)
  fix rest :: jsstring and k :: nat
  have sep: "js '']'' @ rest = [] \<or> isSeparator (hd (js '']'' @ rest))"
    by (simp add: js_def class_defs)
  from reads_backD [OF ts sep, of k] obtain ts' k' where
    s: "map shape ts' = map shape ts" and tk: "list_all token ts'" and
    r: "\<And>build stack. read_loop (printed ts @ js '']'' @ rest) build stack k
            = read_loop (js '']'' @ rest) (build @ ts') stack k'"
    by blast
  from s ne have ne': "ts' \<noteq> []" by auto
  have "read_loop (toString (Quote (Catenate j ts)) @ rest) build stack k
      = read_loop rest (build @ [Quote (Catenate k' ts')]) stack (Suc k')" for build stack
    using r [of "[]" "stack @ [build]"] ne'
    by (simp add: js_def read_loop.simps(2) [of 91] read_loop.simps(2) [of 93]
        class_defs catenate_tokens [OF tk] printed_def)
  with s tk ne'
  show "\<exists>us k''. map shape us = map shape [Quote (Catenate j ts)] \<and> list_all token us \<and>
           (\<forall>build stack. read_loop (toString (Quote (Catenate j ts)) @ rest) build stack k
              = read_loop rest (build @ us) stack k'')"
    by (intro exI [of _ "[Quote (Catenate k' ts')]"] exI [of _ "Suc k'"]) simp
qed

lemma token_reads_back: "token t \<Longrightarrow> reads_back [t] (toString t)"
proof (induction t rule: measure_induct_rule [of size])
  case (less t)
  show ?case
  proof (cases t)
    case (Quote b)
    show ?thesis
    proof (cases b)
      case IdV
      with Quote show ?thesis by (simp only: reads_back_Quote_IdV)
    next
      case (Catenate j ts)
      with Quote less.prems have ne: "ts \<noteq> []" and toks: "list_all token ts"
        by simp_all
      have "reads_back [x] (toString x)" if "x \<in> set ts" for x
      proof (rule less.IH)
        from that have "size x \<le> size_list size ts"
          by (simp add: size_list_estimation')
        then show "size x < size t"
          by (simp add: Quote Catenate)
        from that toks show "token x"
          by (simp add: list_all_iff)
      qed
      then have "reads_back ts (printed ts)"
        using toks by (rule reads_back_list)
      then show ?thesis
        unfolding Quote Catenate using ne by (rule reads_back_Quote)
    qed (use Quote less.prems in simp_all)
  next
    case (Constant name)
    with less.prems show ?thesis by (simp only: reads_back_Constant)
  next
    case (Variable name)
    with less.prems show ?thesis by (simp only: reads_back_Variable)
  next
    case (Text s)
    with less.prems show ?thesis by (simp only: reads_back_Text)
  next
    case (Prompt s)
    with less.prems show ?thesis by (simp only: reads_back_Prompt)
  qed (use less.prems in simp_all)
qed

text \<open>
  C9. For every source \<open>s\<close> on which \<open>read\<close> succeeds, \<open>read\<close> succeeds on the text
  of its result, and the two results are structurally equal: equal but for the
  identities of their arrays. No flattening and no elision of Id is even needed.
\<close>

theorem read_toString_read:
  assumes "read s k = Inr (v, k')"
  shows "\<exists>w j'. read (toString v) j = Inr (w, j') \<and> shape w = shape v"
proof -
  from assms have "program v"
    by (auto simp: read_def intro: read_loop_program)
  then show ?thesis
  proof (cases v)
    case IdV
    then show ?thesis
      by (simp add: read_def read_loop.simps catenate_def)
  next
    case (Catenate i ts)
    with \<open>program v\<close> have ne: "ts \<noteq> []" and toks: "list_all token ts"
      by simp_all
    have "reads_back ts (printed ts)"
      using toks by (intro reads_back_list token_reads_back) (simp add: list_all_iff)
    from reads_backD [OF this, of "[]" j] obtain ts' j' where
      s: "map shape ts' = map shape ts" and tk: "list_all token ts'" and
      r: "\<And>build stack. read_loop (printed ts @ []) build stack j
            = read_loop [] (build @ ts') stack j'"
      by blast
    from s ne have "ts' \<noteq> []" by auto
    with r [of "[]" "[]"] s show ?thesis
      by (simp add: Catenate read_def read_loop.simps(1) catenate_tokens [OF tk] printed_def)
  qed (use \<open>program v\<close> in simp_all)
qed

text \<open>The theorem at a source with a nested Quote, a Prompt and an empty Quote.\<close>

theorem read_toString_read_witness:
  "read (js '' [foo  Bar] {p q}[]'') 0
     = Inr (Catenate 2 [Quote (Catenate 0 [Variable (js ''foo''), Constant (js ''Bar'')]),
                        Prompt (js ''p q''), Quote IdV], 3)
   \<and> toString (Catenate 2 [Quote (Catenate 0 [Variable (js ''foo''), Constant (js ''Bar'')]),
                        Prompt (js ''p q''), Quote IdV]) = js ''[foo Bar] {p q} []''
   \<and> (\<exists>w j'. read (js ''[foo Bar] {p q} []'') 5 = Inr (w, j')
        \<and> shape w = shape (Catenate 2 [Quote (Catenate 0 [Variable (js ''foo''),
              Constant (js ''Bar'')]), Prompt (js ''p q''), Quote IdV]))"
proof -
  have r: "read (js '' [foo  Bar] {p q}[]'') 0
     = Inr (Catenate 2 [Quote (Catenate 0 [Variable (js ''foo''), Constant (js ''Bar'')]),
                        Prompt (js ''p q''), Quote IdV], 3)"
    by (simp add: eval_defs Let_def)
  have t: "toString (Catenate 2 [Quote (Catenate 0 [Variable (js ''foo''), Constant (js ''Bar'')]),
                        Prompt (js ''p q''), Quote IdV]) = js ''[foo Bar] {p q} []''"
    by (simp add: js_def)
  show ?thesis
  proof (intro conjI)
    show "\<exists>w j'. read (js ''[foo Bar] {p q} []'') 5 = Inr (w, j')
        \<and> shape w = shape (Catenate 2 [Quote (Catenate 0 [Variable (js ''foo''),
              Constant (js ''Bar'')]), Prompt (js ''p q''), Quote IdV])"
      using read_toString_read [OF r, of 5] unfolding t .
  qed (rule r t)+
qed

section \<open>The exceptions of \<open>evaluate\<close>\<close>

text \<open>
  Every \<open>Panic\<close> of the stack operations and getters is caught: with code left, a
  combinator returns, and the only exception that leaves a round, the loop and
  \<open>evaluate\<close> is the \<open>Unknown\<close> thrown for an Id on top of the code.
\<close>

lemma popCode_ok: "n \<le> length (code m) \<Longrightarrow> popCode m n = Inr (m\<lparr>code := take (length (code m) - n) (code m)\<rparr>)"
  by (simp add: popCode_def)

lemma popData_ok: "n \<le> length (data m) \<Longrightarrow> popData m n = Inr (m\<lparr>data := take (length (data m) - n) (data m)\<rparr>)"
  by (simp add: popData_def)

lemma Copy_returns: "code m \<noteq> [] \<Longrightarrow> \<not> isl (op_Copy m)"
  by (simp add: op_Copy_def getData_arg bind_e_def popCode_def Suc_le_eq)
lemma Drop_returns: "code m \<noteq> [] \<Longrightarrow> \<not> isl (op_Drop m)"
  by (simp add: op_Drop_def getData_arg bind_e_def popCode_def popData_def Suc_le_eq)
lemma Swap_returns: "code m \<noteq> [] \<Longrightarrow> \<not> isl (op_Swap m)"
  by (simp add: op_Swap_def getData_arg bind_e_def popCode_def popData_def Suc_le_eq)
lemma Abs_returns: "code m \<noteq> [] \<Longrightarrow> \<not> isl (op_Abs m)"
  by (simp add: op_Abs_def getData_arg bind_e_def popCode_def popData_def Suc_le_eq)
lemma Pair_returns: "code m \<noteq> [] \<Longrightarrow> \<not> isl (op_Pair m)"
  by (simp add: op_Pair_def getData_arg bind_e_def popCode_def popData_def Suc_le_eq)
lemma Cat_returns: "code m \<noteq> [] \<Longrightarrow> \<not> isl (op_Cat m)"
  using body_cases [of "arg 0 m"] body_cases [of "arg 1 m"]
  by (auto simp: op_Cat_def getData_arg bind_e_def popCode_def popData_def Suc_le_eq
      split: if_splits)
lemma App_returns: "code m \<noteq> [] \<Longrightarrow> \<not> isl (op_App m)"
  using body_cases [of "arg 0 m"]
  by (auto simp: op_App_def getData_arg bind_e_def popCode_def popData_def Suc_le_eq
      split: if_splits)
lemma Inl_returns: "code m \<noteq> [] \<Longrightarrow> \<not> isl (op_Inl m)"
  using body_cases [of "arg 2 m"] body_cases [of "arg 1 m"]
  by (auto simp: op_Inl_def getData_arg bind_e_def popCode_def popData_def Suc_le_eq
      split: if_splits)
lemma Inr_returns: "code m \<noteq> [] \<Longrightarrow> \<not> isl (op_Inr m)"
  using body_cases [of "arg 2 m"] body_cases [of "arg 1 m"]
  by (auto simp: op_Inr_def getData_arg bind_e_def popCode_def popData_def Suc_le_eq
      split: if_splits)
lemma Define_returns: "code m \<noteq> [] \<Longrightarrow> \<not> isl (op_Define m)"
  using text_of_cases [of "arg 0 m"] body_cases [of "arg 1 m"]
  by (auto simp: op_Define_def getData_arg bind_e_def popCode_def popData_def Suc_le_eq
      split: if_splits option.split)
lemma Delete_returns: "code m \<noteq> [] \<Longrightarrow> \<not> isl (op_Delete m)"
  using text_of_cases [of "arg 0 m"]
  by (auto simp: op_Delete_def getData_arg bind_e_def popCode_def popData_def Suc_le_eq
      split: if_splits option.split)
lemma Shift_returns: "\<not> isl (op_Shift m)"
  by (simp add: op_Shift_def split: sum.split prod.split)
lemma Reset_returns: "\<not> isl (op_Reset m)"
  by (simp add: op_Reset_def)

lemmas returns = Copy_returns Drop_returns Swap_returns Cat_returns Abs_returns App_returns
  Inl_returns Inr_returns Pair_returns Shift_returns Reset_returns Define_returns Delete_returns

lemma combinator_returns: "code m \<noteq> [] \<Longrightarrow> \<not> isl (combinator name m)"
  by (simp add: combinator_def returns)

lemma iteration_raises_only_Unknown:
  assumes "code m \<noteq> []" and "iteration m = Inl e"
  shows "e = Unknown IdV \<and> last (code m) = IdV"
proof -
  let ?m = "m\<lparr>gas := gas m - 1\<rparr>"
  have top: "getCode ?m 0 = Inr (last (code m))"
    using assms(1) getCode_top [of ?m] by simp
  have pop: "popCode ?m 1 = Inr (?m\<lparr>code := butlast (code m)\<rparr>)"
    using assms(1) by (simp add: popCode_def butlast_conv_take Suc_le_eq)
  have c: "\<not> isl (combinator name ?m)" for name
    using assms(1) by (intro combinator_returns) simp
  show ?thesis
  proof (cases "last (code m)")
    case (Constant name)
    with assms(2) top c [of name] show ?thesis
      by (simp add: iteration_def Let_def bind_e_def)
  qed (use assms(2) top pop in \<open>auto simp: iteration_def Let_def bind_e_def split: option.splits\<close>)
qed

lemma run_raises_only_Unknown: "fst (run m n) = Inl e \<Longrightarrow> e = Unknown IdV"
proof (induction m n rule: run.induct)
  case (1 m n)
  show ?case
  proof (cases "0 < length (code m) \<and> 0 < gas m")
    case False
    with "1.prems" show ?thesis by (auto simp: run.simps [of m n])
  next
    case True
    show ?thesis
    proof (cases "iteration m")
      case (Inl e')
      with True "1.prems" iteration_raises_only_Unknown [of m e'] show ?thesis
        by (auto simp: run.simps [of m n])
    next
      case (Inr m')
      with True "1.prems" "1.IH" [OF True Inr] show ?thesis
        by (auto simp: run.simps [of m n])
    qed
  qed
qed

lemma evaluate_raises_only_Unknown: "evaluate v d g k = Inl e \<Longrightarrow> e = Unknown IdV"
  using run_raises_only_Unknown [of "initial v d g k" 0 e]
  by (auto simp: evaluate_def split: sum.splits)

end
